theory Spec2Isabelle
  imports Complex_Main "HOL-Library.AList"
begin

section \<open>JavaScript values\<close>

text \<open>
  The membrane of \<^verbatim>\<open>docs/dist/Membrane.mjs\<close> manipulates arbitrary JavaScript values.
  Objects and functions are references with an identity; proxies are objects or functions
  too.  Numbers are modelled by rationals together with the three special values (the sign
  of zero and rounding play no role in the code embedded here).
\<close>

datatype jsnum = Finite rat | PosInfinity | NegInfinity | NaN

datatype jsval =
    VUndefined
  | VNull
  | VBool bool
  | VNum jsnum
  | VStr string
  | VSym nat
  | VObj nat
  | VFun nat

datatype jstype = TUndefined | TObject | TBoolean | TNumber | TString | TSymbol | TFunction

fun typeof :: "jsval \<Rightarrow> jstype" where
  "typeof VUndefined = TUndefined"
| "typeof VNull = TObject"
| "typeof (VBool b) = TBoolean"
| "typeof (VNum n) = TNumber"
| "typeof (VStr s) = TString"
| "typeof (VSym n) = TSymbol"
| "typeof (VObj r) = TObject"
| "typeof (VFun r) = TFunction"

text \<open>ToBoolean, as used by \<^verbatim>\<open>if (x)\<close> and \<^verbatim>\<open>!x\<close>.\<close>

fun truthy :: "jsval \<Rightarrow> bool" where
  "truthy VUndefined = False"
| "truthy VNull = False"
| "truthy (VBool b) = b"
| "truthy (VNum (Finite q)) = (q \<noteq> 0)"
| "truthy (VNum NaN) = False"
| "truthy (VNum n) = True"
| "truthy (VStr s) = (s \<noteq> [])"
| "truthy (VSym n) = True"
| "truthy (VObj r) = True"
| "truthy (VFun r) = True"

text \<open>The strict equality \<^verbatim>\<open>===\<close>: structural on this datatype, except that NaN differs from itself.\<close>

definition strict_eq :: "jsval \<Rightarrow> jsval \<Rightarrow> bool" where
  "strict_eq a b = (a = b \<and> a \<noteq> VNum NaN)"

text \<open>A property that is absent from an object reads as \<^verbatim>\<open>undefined\<close>.\<close>

definition read_prop :: "jsval option \<Rightarrow> jsval" where
  "read_prop p = (case p of None \<Rightarrow> VUndefined | Some v \<Rightarrow> v)"

datatype vtype = Primitive | FunctionType | ObjectType

text \<open>\<^verbatim>\<open>valueType(value)\<close>, lines 207-214.\<close>

definition valueType :: "jsval \<Rightarrow> vtype" where
  "valueType v =
     (if v = VNull then Primitive
      else if typeof v \<noteq> TFunction \<and> typeof v \<noteq> TObject then Primitive
      else if typeof v = TFunction then FunctionType else ObjectType)"

datatype error = Error string | TypeError string

section \<open>ProxyCylinder\<close>

text \<open>
  A GraphMetadata object.  Each field is an own property that may be absent (\<open>None\<close>);
  a present property holds any JavaScript value.  The properties \<^verbatim>\<open>localDescriptors\<close>,
  \<^verbatim>\<open>deletedLocals\<close> and \<^verbatim>\<open>cachedOwnKeys\<close> are read only by code that is not embedded
  here and are left out.
\<close>

record metadata =
  md_value :: "jsval option"
  md_proxy :: "jsval option"
  md_revoke :: "jsval option"
  md_shadowTarget :: "jsval option"
  md_override :: "jsval option"
  md_ownKeysFilter :: "jsval option"
  md_truncateArgList :: "jsval option"

text \<open>A value of the \<^verbatim>\<open>proxyDataByGraph\<close> map: the symbol \<^verbatim>\<open>DeadProxyKey\<close> or a metadata object.\<close>

datatype graphdata = DeadProxyKey | Metadata metadata

text \<open>
  The instance fields set by the constructor (lines 269-305).  \<^verbatim>\<open>proxyDataByGraph\<close> is a
  JavaScript \<^verbatim>\<open>Map\<close>, which keeps insertion order: an association list whose keys are
  updated in place.  The object is made non-extensible by its constructor and its
  prototype is frozen, so it has these five properties and no other.
\<close>

record cylinder =
  originGraph :: jsval
  proxyDataByGraph :: "(jsval \<times> graphdata) list"
  originalValueSet :: bool
  localFlags :: "string list option"
  localFlagsSymbols :: "(jsval \<times> (string \<times> jsval) list) list option"

definition new_ProxyCylinder :: "jsval \<Rightarrow> cylinder" where
  "new_ProxyCylinder g =
     \<lparr> originGraph = g, proxyDataByGraph = [], originalValueSet = False,
       localFlags = None, localFlagsSymbols = None \<rparr>"

definition getGraphNames :: "cylinder \<Rightarrow> jsval list" where
  "getGraphNames c = map fst (proxyDataByGraph c)"

text \<open>\<^verbatim>\<open>getMetadata(graphName)\<close>, lines 324-339.\<close>

definition getMetadata :: "cylinder \<Rightarrow> jsval \<Rightarrow> error + metadata" where
  "getMetadata c graphName =
     (if typeof graphName \<noteq> TString \<and> typeof graphName \<noteq> TSymbol
      then Inl (Error ''graphName is neither a symbol nor a string!'')
      else case map_of (proxyDataByGraph c) graphName of
             None \<Rightarrow> Inl (Error ''unknown graph'')
           | Some DeadProxyKey \<Rightarrow> Inl (Error ''dead object graph'')
           | Some (Metadata md) \<Rightarrow> Inr md)"

text \<open>
  \<^verbatim>\<open>setMetadataInternal(graphName, metadata)\<close>, lines 349-355.  Both values of
  \<open>graphdata\<close> are truthy, so the first throw of the source is never taken.
\<close>

definition setMetadataInternal :: "cylinder \<Rightarrow> jsval \<Rightarrow> graphdata \<Rightarrow> error + cylinder" where
  "setMetadataInternal c graphName gd =
     (if gd \<noteq> DeadProxyKey \<and> map_of (proxyDataByGraph c) graphName = Some DeadProxyKey
      then Inl (Error ''dead object graph'')
      else Inr (c\<lparr>proxyDataByGraph := AList.update graphName gd (proxyDataByGraph c)\<rparr>))"

definition hasGraph :: "cylinder \<Rightarrow> jsval \<Rightarrow> bool" where
  "hasGraph c graphName = (graphName \<in> set (getGraphNames c))"

text \<open>\<^verbatim>\<open>getProxy(graphName)\<close>, lines 387-390.\<close>

definition getProxy :: "cylinder \<Rightarrow> jsval \<Rightarrow> error + jsval" where
  "getProxy c graphName =
     (case getMetadata c graphName of
        Inl e \<Rightarrow> Inl e
      | Inr rv \<Rightarrow> Inr (if strict_eq graphName (originGraph c)
                       then read_prop (md_value rv) else read_prop (md_proxy rv)))"

text \<open>\<^verbatim>\<open>getOriginal()\<close>, lines 361-365.\<close>

definition getOriginal :: "cylinder \<Rightarrow> error + jsval" where
  "getOriginal c =
     (if \<not> originalValueSet c then Inl (Error ''the original value hasn't been set'')
      else getProxy c (originGraph c))"

text \<open>\<^verbatim>\<open>getShadowTarget(graphName)\<close>, lines 399-401.\<close>

definition getShadowTarget :: "cylinder \<Rightarrow> jsval \<Rightarrow> error + jsval" where
  "getShadowTarget c graphName =
     (case getMetadata c graphName of
        Inl e \<Rightarrow> Inl e
      | Inr md \<Rightarrow> Inr (read_prop (md_shadowTarget md)))"

text \<open>\<^verbatim>\<open>isShadowTarget(shadowTarget)\<close>, lines 411-416.\<close>

definition isShadowTarget :: "cylinder \<Rightarrow> jsval \<Rightarrow> bool" where
  "isShadowTarget c shadowTarget =
     list_ex (\<lambda>graph. case graph of
                        DeadProxyKey \<Rightarrow> False
                      | Metadata md \<Rightarrow> strict_eq (read_prop (md_shadowTarget md)) shadowTarget)
             (map snd (proxyDataByGraph c))"

text \<open>
  Writing a changed metadata object back: the source mutates the object held by the map,
  so the entry keeps its place.
\<close>

definition storeMetadata :: "cylinder \<Rightarrow> jsval \<Rightarrow> metadata \<Rightarrow> cylinder" where
  "storeMetadata c graphName md =
     c\<lparr>proxyDataByGraph := AList.update graphName (Metadata md) (proxyDataByGraph c)\<rparr>"

text \<open>\<^verbatim>\<open>getLocalFlag(graphName, flagName)\<close>, lines 588-604.\<close>

definition getLocalFlag :: "cylinder \<Rightarrow> jsval \<Rightarrow> string \<Rightarrow> error + bool" where
  "getLocalFlag c graphName flagName =
     (case getMetadata c graphName of
        Inl e \<Rightarrow> Inl e
      | Inr _ \<Rightarrow>
          (case graphName of
             VStr g \<Rightarrow>
               (case localFlags c of
                  None \<Rightarrow> Inr False
                | Some flags \<Rightarrow> Inr ((flagName @ '':'' @ g) \<in> set flags))
           | _ \<Rightarrow>
               (case localFlagsSymbols c of
                  None \<Rightarrow> Inr False
                | Some m \<Rightarrow>
                    (case map_of m graphName of
                       None \<Rightarrow> Inr False
                     | Some obj \<Rightarrow> Inr (truthy (read_prop (map_of obj flagName)))))))"

text \<open>\<^verbatim>\<open>getOwnKeysFilter\<close> and \<^verbatim>\<open>setOwnKeysFilter\<close>, lines 816-833.\<close>

definition getOwnKeysFilter :: "cylinder \<Rightarrow> jsval \<Rightarrow> error + jsval" where
  "getOwnKeysFilter c graphName =
     (case getMetadata c graphName of
        Inl e \<Rightarrow> Inl e
      | Inr md \<Rightarrow> Inr (if typeof (read_prop (md_ownKeysFilter md)) = TFunction
                       then read_prop (md_ownKeysFilter md) else VNull))"

definition setOwnKeysFilter :: "cylinder \<Rightarrow> jsval \<Rightarrow> jsval \<Rightarrow> error + cylinder" where
  "setOwnKeysFilter c graphName flt =
     (case getMetadata c graphName of
        Inl e \<Rightarrow> Inl e
      | Inr md \<Rightarrow>
          Inr (storeMetadata c graphName
                 (md\<lparr>md_ownKeysFilter :=
                       Some (if typeof flt = TFunction then flt else VNull)\<rparr>)))"

text \<open>\<^verbatim>\<open>getTruncateArgList(graphName)\<close>, lines 842-848.\<close>

definition getTruncateArgList :: "cylinder \<Rightarrow> jsval \<Rightarrow> error + jsval" where
  "getTruncateArgList c graphName =
     (case getMetadata c graphName of
        Inl e \<Rightarrow> Inl e
      | Inr md \<Rightarrow> Inr (if typeof (read_prop (md_truncateArgList md)) \<noteq> TUndefined
                       then read_prop (md_truncateArgList md) else VBool False))"

text \<open>
  The test of line 859 on a number: \<^verbatim>\<open>count >= 0\<close>, \<^verbatim>\<open>parseInt(count) === count\<close> and
  \<^verbatim>\<open>isFinite(count)\<close>.  \<^verbatim>\<open>parseInt\<close> reads the decimal digits at the start of the
  number's string form, which is the number itself exactly for an integer below
  \<open>10\<^sup>2\<^sup>1\<close> in absolute value (larger numbers print with an exponent).
\<close>

fun ge_zero :: "jsnum \<Rightarrow> bool" where
  "ge_zero (Finite q) = (0 \<le> q)"
| "ge_zero PosInfinity = True"
| "ge_zero NegInfinity = False"
| "ge_zero NaN = False"

fun parseInt_same :: "jsnum \<Rightarrow> bool" where
  "parseInt_same (Finite q) = (of_int \<lfloor>q\<rfloor> = q \<and> \<bar>q\<bar> < 10 ^ 21)"
| "parseInt_same n = False"

fun isFinite :: "jsnum \<Rightarrow> bool" where
  "isFinite (Finite q) = True"
| "isFinite n = False"

definition storable_count :: "jsval \<Rightarrow> bool" where
  "storable_count count =
     (case count of
        VNum n \<Rightarrow> ge_zero n \<and> parseInt_same n \<and> isFinite n
      | _ \<Rightarrow> False)"

text \<open>\<^verbatim>\<open>setTruncateArgList(graphName, count)\<close>, lines 857-863.\<close>

definition setTruncateArgList :: "cylinder \<Rightarrow> jsval \<Rightarrow> jsval \<Rightarrow> error + cylinder" where
  "setTruncateArgList c graphName count =
     (case getMetadata c graphName of
        Inl e \<Rightarrow> Inl e
      | Inr md \<Rightarrow>
          Inr (storeMetadata c graphName
                 (if storable_count count
                  then md\<lparr>md_truncateArgList := Some count\<rparr>
                  else md\<lparr>md_truncateArgList := None\<rparr>)))"

section \<open>The heap: handlers, proxies and the membrane\<close>

text \<open>
  \<^verbatim>\<open>returnFalse\<close> (lines 42-44) is one function object of the module; it is the initial
  value of every pass-through filter and is handed out by the \<^verbatim>\<open>passThroughFilter\<close>
  getters.
\<close>

definition returnFalse :: jsval where
  "returnFalse = VFun 0"

text \<open>
  The two classes of graph handler.  An \<^verbatim>\<open>ObjectGraph\<close> (lines 3547-3594) stores its name
  in the property \<^verbatim>\<open>graphName\<close>; an \<^verbatim>\<open>ObjectGraphHandler\<close> (lines 1099-1169) stores it in
  \<^verbatim>\<open>fieldName\<close> and has no property \<^verbatim>\<open>graphName\<close>.
\<close>

datatype handler_class = ObjectGraph | ObjectGraphHandler

text \<open>
  An entry of \<^verbatim>\<open>__revokeFunctions__\<close>: a ProxyCylinder, the \<^verbatim>\<open>revoke\<close> function that
  \<^verbatim>\<open>Proxy.revocable\<close> returned for a proxy, or the function that \<^verbatim>\<open>makeRevokeDeleteRefs\<close>
  (lines 216-226) puts in its place.
\<close>

datatype revocable = RevokeCylinder nat | RevokeProxy nat | RevokeDeleteRefs nat

record handler =
  h_class :: handler_class
  h_name :: jsval
  h_passThroughFilter :: jsval
  h_isDead :: bool
  h_revokeFunctions :: "revocable list"
  h_masterProxyHandler :: jsval

text \<open>A proxy made by \<^verbatim>\<open>Proxy.revocable(target, handler)\<close>.\<close>

record proxyrec =
  p_target :: jsval
  p_handler :: jsval
  p_revoked :: bool

text \<open>A value of the membrane's WeakMap: \<^verbatim>\<open>DeadProxyKey\<close> or a ProxyCylinder, by identity.\<close>

datatype mapentry = DeadEntry | CylinderRef nat

datatype pkey = KStr string | KSym nat

text \<open>
  The state: the fields of the \<^verbatim>\<open>Membrane\<close> instance (lines 3736-3777) that the
  embedded code reads, the objects they refer to, and the module's \<^verbatim>\<open>ShadowKeyMap\<close> and
  \<^verbatim>\<open>ChainHandlers\<close>.  Three fields stand for the host and for user code: \<open>call_filter\<close>
  is the boolean a function value returns when it is called as a pass-through filter,
  \<open>host_toString\<close> the string form of a number or an object used as a property key, and
  \<open>fun_length\<close> the \<^verbatim>\<open>length\<close> of a function.
\<close>

record world =
  membrane_map :: "jsval \<Rightarrow> mapentry option"
  cylinders :: "nat \<Rightarrow> cylinder"
  handlersByFieldName :: "pkey \<Rightarrow> jsval option"
  handlers :: "nat \<Rightarrow> handler option"
  ChainHandlers :: "jsval \<Rightarrow> jsval option"
  refactor :: jsval
  membrane_passThroughFilter :: jsval
  ShadowKeyMap :: "jsval \<Rightarrow> jsval option"
  proxies :: "nat \<Rightarrow> proxyrec option"
  nextRef :: nat
  call_filter :: "jsval \<Rightarrow> jsval \<Rightarrow> bool"
  host_toString :: "jsval \<Rightarrow> string"
  fun_length :: "jsval \<Rightarrow> nat"

text \<open>
  \<^verbatim>\<open>new Membrane(options)\<close> with the options \<^verbatim>\<open>refactor\<close> and \<^verbatim>\<open>passThroughFilter\<close>; no
  graph is registered.  Reference 0 is \<^verbatim>\<open>returnFalse\<close>.
\<close>

definition new_Membrane ::
  "jsval \<Rightarrow> jsval \<Rightarrow> (jsval \<Rightarrow> jsval \<Rightarrow> bool) \<Rightarrow> (jsval \<Rightarrow> string) \<Rightarrow> (jsval \<Rightarrow> nat) \<Rightarrow> world" where
  "new_Membrane refactor_opt filter_opt cf ts fl =
     \<lparr> membrane_map = (\<lambda>k. None),
       cylinders = (\<lambda>i. new_ProxyCylinder VUndefined),
       handlersByFieldName = (\<lambda>k. None),
       handlers = (\<lambda>r. None),
       ChainHandlers = (\<lambda>h. None),
       refactor = (if truthy refactor_opt then refactor_opt else VStr []),
       membrane_passThroughFilter =
         (if typeof filter_opt = TFunction then filter_opt else returnFalse),
       ShadowKeyMap = (\<lambda>k. None),
       proxies = (\<lambda>r. None),
       nextRef = 1,
       call_filter = cf, host_toString = ts, fun_length = fl \<rparr>"

subsection \<open>The pass-through filter of a graph handler\<close>

text \<open>
  The accessor property \<^verbatim>\<open>passThroughFilter\<close> and the getter \<^verbatim>\<open>mayReplacePassThrough\<close>,
  lines 1125-1142 (ObjectGraphHandler) and 3566-3583 (ObjectGraph): the same text in both
  constructors.  A setter that throws changes nothing.
\<close>

definition get_passThroughFilter :: "handler \<Rightarrow> jsval" where
  "get_passThroughFilter h = h_passThroughFilter h"

definition set_passThroughFilter :: "handler \<Rightarrow> jsval \<Rightarrow> error + handler" where
  "set_passThroughFilter h val =
     (if \<not> strict_eq (h_passThroughFilter h) returnFalse
      then Inl (Error ''passThroughFilter has been defined once already!'')
      else if typeof val \<noteq> TFunction
      then Inl (Error ''passThroughFilter must be a function'')
      else Inr (h\<lparr>h_passThroughFilter := val\<rparr>))"

definition mayReplacePassThrough :: "handler \<Rightarrow> bool" where
  "mayReplacePassThrough h = strict_eq (h_passThroughFilter h) returnFalse"

subsection \<open>Constructors of the graph handlers\<close>

definition fresh_handler :: "handler_class \<Rightarrow> jsval \<Rightarrow> jsval \<Rightarrow> handler" where
  "fresh_handler cls name master =
     \<lparr> h_class = cls, h_name = name, h_passThroughFilter = returnFalse,
       h_isDead = False, h_revokeFunctions = [], h_masterProxyHandler = master \<rparr>"

text \<open>\<^verbatim>\<open>new ObjectGraphHandler(membrane, fieldName)\<close>, lines 1100-1169.\<close>

definition new_ObjectGraphHandler :: "world \<Rightarrow> jsval \<Rightarrow> (error + jsval) \<times> world" where
  "new_ObjectGraphHandler w fieldName =
     (if typeof fieldName \<noteq> TString \<and> typeof fieldName \<noteq> TSymbol
      then (Inl (Error ''field must be a string or a symbol!''), w)
      else (Inr (VObj (nextRef w)),
            w\<lparr>handlers := (handlers w)
                  (nextRef w \<mapsto> fresh_handler ObjectGraphHandler fieldName VUndefined),
              nextRef := nextRef w + 1\<rparr>))"

text \<open>
  \<^verbatim>\<open>new ObjectGraph(membrane, graphName)\<close>, lines 3548-3594; \<^verbatim>\<open>MembraneProxyHandlers.Master\<close>
  is the empty function of line 3541, so the master proxy handler is a new empty object.
\<close>

definition new_ObjectGraph :: "world \<Rightarrow> jsval \<Rightarrow> (error + jsval) \<times> world" where
  "new_ObjectGraph w graphName =
     (if typeof graphName \<noteq> TString \<and> typeof graphName \<noteq> TSymbol
      then (Inl (Error ''field must be a string or a symbol!''), w)
      else (Inr (VObj (nextRef w + 1)),
            w\<lparr>handlers := (handlers w)
                  (nextRef w + 1 \<mapsto> fresh_handler ObjectGraph graphName (VObj (nextRef w))),
              nextRef := nextRef w + 2\<rparr>))"

subsection \<open>Membrane: the registry of graph handlers\<close>

text \<open>
  ToPropertyKey, for \<^verbatim>\<open>this.handlersByFieldName[key]\<close>: a symbol is kept, anything else is
  converted to a string.
\<close>

definition toPropertyKey :: "world \<Rightarrow> jsval \<Rightarrow> pkey" where
  "toPropertyKey w v =
     (case v of
        VSym n \<Rightarrow> KSym n
      | VStr s \<Rightarrow> KStr s
      | VUndefined \<Rightarrow> KStr ''undefined''
      | VNull \<Rightarrow> KStr ''null''
      | VBool b \<Rightarrow> KStr (if b then ''true'' else ''false'')
      | _ \<Rightarrow> KStr (host_toString w v))"

text \<open>\<^verbatim>\<open>hasHandlerByField(graph)\<close>, lines 3934-3941.\<close>

definition hasHandlerByField :: "world \<Rightarrow> jsval \<Rightarrow> error + bool" where
  "hasHandlerByField w graph =
     (if typeof graph \<noteq> TString \<and> typeof graph \<noteq> TSymbol
      then Inl (Error ''graph must be a string or a symbol!'')
      else Inr (handlersByFieldName w (toPropertyKey w graph) \<noteq> None))"

text \<open>
  The second argument of \<^verbatim>\<open>getHandlerByName\<close>: not passed (or \<^verbatim>\<open>undefined\<close>), a boolean,
  \<^verbatim>\<open>null\<close>, an object with or without a property \<^verbatim>\<open>mustCreate\<close>, or another primitive or
  a function.
\<close>

datatype handler_options =
    NoOptions
  | BoolOptions bool
  | NullOptions
  | ObjectOptions "jsval option"
  | OtherOptions

text \<open>
  \<^verbatim>\<open>getHandlerByName(graph, options)\<close>, lines 3952-3967.  Inside the \<^verbatim>\<open>if\<close> block the
  declaration \<^verbatim>\<open>let graph = null\<close> hides the parameter: the constructor receives
  \<^verbatim>\<open>null\<close>, and the assignment that follows uses the new handler itself as the property
  key.  The \<^verbatim>\<open>return\<close> is outside the block and reads the parameter.
\<close>

definition mustCreate_of :: "handler_options \<Rightarrow> bool" where
  "mustCreate_of options =
     (case options of ObjectOptions mc \<Rightarrow> truthy (read_prop mc) | _ \<Rightarrow> False)"

definition getHandlerByName :: "world \<Rightarrow> jsval \<Rightarrow> handler_options \<Rightarrow> (error + jsval) \<times> world" where
  "getHandlerByName w graph options =
     (case options of
        BoolOptions b \<Rightarrow> (Inl (Error ''fix me!''), w)
      | NullOptions \<Rightarrow> (Inl (TypeError ''cannot read property mustCreate of null''), w)
      | _ \<Rightarrow>
        (let mustCreate = mustCreate_of options;
             present = (if mustCreate then hasHandlerByField w graph else Inr True)
         in case present of
              Inl e \<Rightarrow> (Inl e, w)
            | Inr True \<Rightarrow> (Inr (read_prop (handlersByFieldName w (toPropertyKey w graph))), w)
            | Inr False \<Rightarrow>
                (let inner_graph = VNull
                 in case (if strict_eq (refactor w) (VStr ''0.10'')
                          then new_ObjectGraph w inner_graph
                          else new_ObjectGraphHandler w inner_graph) of
                      (Inl e, w') \<Rightarrow> (Inl e, w')
                    | (Inr created, w') \<Rightarrow>
                        (let w'' = w'\<lparr>handlersByFieldName :=
                                        (handlersByFieldName w')(toPropertyKey w' created \<mapsto> created)\<rparr>
                         in (Inr (read_prop (handlersByFieldName w'' (toPropertyKey w'' graph))),
                             w'')))))"

text \<open>
  Reading \<^verbatim>\<open>handler[graphKey]\<close>, where \<^verbatim>\<open>graphKey\<close> is \<^verbatim>\<open>"graphName"\<close> on both branches
  (lines 3857 and 4043).  Only an \<^verbatim>\<open>ObjectGraph\<close> has that property; reading it from
  \<^verbatim>\<open>undefined\<close> or \<^verbatim>\<open>null\<close> throws.
\<close>

definition read_graphName :: "world \<Rightarrow> jsval \<Rightarrow> error + jsval" where
  "read_graphName w handler =
     (case handler of
        VUndefined \<Rightarrow> Inl (TypeError ''cannot read property graphName of undefined'')
      | VNull \<Rightarrow> Inl (TypeError ''cannot read property graphName of null'')
      | VObj r \<Rightarrow>
          (case handlers w r of
             Some h \<Rightarrow> Inr (if h_class h = ObjectGraph then h_name h else VUndefined)
           | None \<Rightarrow> Inr VUndefined)
      | _ \<Rightarrow> Inr VUndefined)"

definition instanceof :: "world \<Rightarrow> jsval \<Rightarrow> handler_class \<Rightarrow> bool" where
  "instanceof w v cls =
     (case v of
        VObj r \<Rightarrow> (case handlers w r of Some h \<Rightarrow> h_class h = cls | None \<Rightarrow> False)
      | _ \<Rightarrow> False)"

text \<open>
  \<^verbatim>\<open>ownsHandler(handler)\<close>, lines 3974-3982.  The reads of \<^verbatim>\<open>handler.graphName\<close> happen
  only after an \<^verbatim>\<open>instanceof\<close> test has succeeded, so they do not throw.
\<close>

definition owned_under_graphName :: "world \<Rightarrow> jsval \<Rightarrow> bool" where
  "owned_under_graphName w handler =
     (case read_graphName w handler of
        Inl e \<Rightarrow> False
      | Inr g \<Rightarrow> strict_eq (read_prop (handlersByFieldName w (toPropertyKey w g))) handler)"

definition ownsHandler :: "world \<Rightarrow> jsval \<Rightarrow> bool" where
  "ownsHandler w handler =
     (if instanceof w handler ObjectGraph then owned_under_graphName w handler
      else (let handler' = (case ChainHandlers w handler of
                              Some baseHandler \<Rightarrow> baseHandler
                            | None \<Rightarrow> handler)
            in instanceof w handler' ObjectGraphHandler \<and> owned_under_graphName w handler'))"

subsection \<open>The membrane's WeakMap of cylinders\<close>

text \<open>
  The native \<^verbatim>\<open>WeakMap.get\<close> and \<^verbatim>\<open>WeakMap.has\<close>: a key that is not an object has no
  entry.
\<close>

definition WeakMap_get :: "world \<Rightarrow> jsval \<Rightarrow> mapentry option" where
  "WeakMap_get w key = (if valueType key = Primitive then None else membrane_map w key)"

definition WeakMap_has :: "world \<Rightarrow> jsval \<Rightarrow> bool" where
  "WeakMap_has w key = (WeakMap_get w key \<noteq> None)"

text \<open>
  \<^verbatim>\<open>WeakMapOfProxyCylinders.set\<close>, lines 3681-3695, in front of the native \<^verbatim>\<open>WeakMap.set\<close>,
  which rejects a primitive key.  \<^verbatim>\<open>ProxyMapping\<close> is not declared in the module, so the
  test on \<^verbatim>\<open>typeof ProxyMapping\<close> is false.
\<close>

definition WeakMap_set :: "world \<Rightarrow> jsval \<Rightarrow> mapentry \<Rightarrow> (error + unit) \<times> world" where
  "WeakMap_set w key val =
     (let current = WeakMap_get w key
      in if val \<noteq> DeadEntry \<and> current = Some DeadEntry
         then (Inl (Error ''WeakMapOfProxyCylinders says this key is dead''), w)
         else if val \<noteq> DeadEntry \<and> current \<noteq> None \<and> current \<noteq> Some val
         then (Inl (Error ''WeakMapOfProxyCylinders already has a value for this key''), w)
         else if valueType key = Primitive
         then (Inl (TypeError ''Invalid value used as weak map key''), w)
         else (Inr (), w\<lparr>membrane_map := (membrane_map w)(key \<mapsto> val)\<rparr>))"

text \<open>\<^verbatim>\<open>revokeMapping(key)\<close>, lines 4270-4272, through \<^verbatim>\<open>WeakMapOfProxyCylinders.revoke\<close>.\<close>

definition revokeMapping :: "world \<Rightarrow> jsval \<Rightarrow> (error + unit) \<times> world" where
  "revokeMapping w key = WeakMap_set w key DeadEntry"

subsection \<open>ProxyCylinder: operations that reach the membrane\<close>

text \<open>The checks of lines 447-468 on the shape of the metadata.\<close>

definition check_metadata :: "cylinder \<Rightarrow> bool \<Rightarrow> metadata \<Rightarrow> error option" where
  "check_metadata c isForeignGraph md =
     (if isForeignGraph then
        (if map_of (proxyDataByGraph c) (originGraph c) = Some DeadProxyKey
         then Some (Error ''dead origin object graph'')
         else if md_value md \<noteq> None
         then Some (Error ''metadata must not include a value'')
         else if \<not> truthy (read_prop (md_proxy md))
         then Some (Error ''metadata must include a proxy'')
         else if typeof (read_prop (md_revoke md)) \<noteq> TFunction
         then Some (Error ''metadata must include a revoke method'')
         else if \<not> truthy (read_prop (md_shadowTarget md))
         then Some (Error ''metadata must include a shadow target'')
         else None)
      else
        (if md_value md = None
         then Some (Error ''metadata must include an original value'')
         else if truthy (read_prop (md_proxy md))
         then Some (Error ''metadata must not include a proxy'')
         else if truthy (read_prop (md_revoke md))
         then Some (Error ''metadata must not include a revoke method'')
         else if truthy (read_prop (md_shadowTarget md))
         then Some (Error ''metadata must not include a shadow target'')
         else None))"

text \<open>
  \<^verbatim>\<open>setMetadata(membrane, graphName, metadata)\<close>, lines 427-486, on the cylinder with
  identity \<open>cid\<close>.  The metadata argument is an object by its type here, so the throw of
  line 429 has no branch.
\<close>

definition setMetadata :: "world \<Rightarrow> nat \<Rightarrow> jsval \<Rightarrow> metadata \<Rightarrow> (error + unit) \<times> world" where
  "setMetadata w cid graphName md =
     (let c = cylinders w cid;
          override = (md_override md = Some (VBool True));
          isForeignGraph = (\<not> strict_eq graphName (originGraph c))
      in if \<not> override \<and> hasGraph c graphName
         then (Inl (Error ''set called for previously defined graph''), w)
         else if map_of (proxyDataByGraph c) graphName = Some DeadProxyKey
         then (Inl (Error ''dead object graph''), w)
         else if typeof graphName \<noteq> TString \<and> typeof graphName \<noteq> TSymbol
         then (Inl (Error ''graphName is neither a symbol nor a string!''), w)
         else if \<not> originalValueSet c \<and> (override \<or> isForeignGraph)
         then (Inl (Error ''original value has not been set''), w)
         else case check_metadata c isForeignGraph md of
                Some e \<Rightarrow> (Inl e, w)
              | None \<Rightarrow>
                  (case setMetadataInternal c graphName (Metadata md) of
                     Inl e \<Rightarrow> (Inl e, w)
                   | Inr c1 \<Rightarrow>
                       (if isForeignGraph then
                          (let w1 = w\<lparr>cylinders := (cylinders w)(cid := c1)\<rparr>
                           in if valueType (read_prop (md_proxy md)) \<noteq> Primitive
                              then WeakMap_set w1 (read_prop (md_proxy md)) (CylinderRef cid)
                              else (Inr (), w1))
                        else
                          (let w2 = w\<lparr>cylinders :=
                                       (cylinders w)(cid := c1\<lparr>originalValueSet := True\<rparr>)\<rparr>
                           in if \<not> WeakMap_has w2 (read_prop (md_value md))
                                 \<and> valueType (read_prop (md_value md)) \<noteq> Primitive
                              then WeakMap_set w2 (read_prop (md_value md)) (CylinderRef cid)
                              else (Inr (), w2)))))"

text \<open>
  \<^verbatim>\<open>removeGraph(graphName)\<close>, lines 494-512.  Every graph holds a metadata object of its
  own, so the size of the set of live values is the number of live entries.
\<close>

definition removeGraph :: "cylinder \<Rightarrow> jsval \<Rightarrow> error + cylinder" where
  "removeGraph c graphName =
     (case getMetadata c graphName of
        Inl e \<Rightarrow> Inl e
      | Inr _ \<Rightarrow>
          (if strict_eq graphName (originGraph c)
              \<and> length (filter (\<lambda>gd. gd \<noteq> DeadProxyKey) (map snd (proxyDataByGraph c))) \<noteq> 1
           then Inl (Error ''Cannot remove the origin graph with another graph referring to it'')
           else setMetadataInternal c graphName DeadProxyKey))"

text \<open>
  \<^verbatim>\<open>selfDestruct(membrane)\<close>, lines 525-540: the loop over the graph names, last to first.
  \<^verbatim>\<open>membrane.map.delete\<close> is the native method.
\<close>

fun selfDestruct_loop :: "world \<Rightarrow> nat \<Rightarrow> jsval list \<Rightarrow> (error + unit) \<times> world" where
  "selfDestruct_loop w cid [] = (Inr (), w)"
| "selfDestruct_loop w cid (graphName # names) =
     (let c = cylinders w cid
      in if map_of (proxyDataByGraph c) graphName = Some DeadProxyKey
         then selfDestruct_loop w cid names
         else case getMetadata c graphName of
                Inl e \<Rightarrow> (Inl e, w)
              | Inr md \<Rightarrow>
                  (let key = (if \<not> strict_eq graphName (originGraph c)
                              then read_prop (md_proxy md) else read_prop (md_value md));
                       w1 = w\<lparr>membrane_map := (membrane_map w)(key := None)\<rparr>
                   in case removeGraph c graphName of
                        Inl e \<Rightarrow> (Inl e, w1)
                      | Inr c1 \<Rightarrow>
                          selfDestruct_loop (w1\<lparr>cylinders := (cylinders w1)(cid := c1)\<rparr>)
                            cid names))"

definition selfDestruct :: "world \<Rightarrow> nat \<Rightarrow> (error + unit) \<times> world" where
  "selfDestruct w cid = selfDestruct_loop w cid (rev (getGraphNames (cylinders w cid)))"

subsection \<open>Membrane: looking values up\<close>

text \<open>
  \<^verbatim>\<open>getMembraneProxy(graph, value)\<close>, lines 3831-3837.  The result \<open>Some p\<close> is the pair
  \<^verbatim>\<open>[true, p]\<close> and \<open>None\<close> the pair \<^verbatim>\<open>[false, NOT_YET_DETERMINED]\<close>.  A key that was
  revoked maps to the symbol \<^verbatim>\<open>DeadProxyKey\<close>, which is truthy and has no method
  \<^verbatim>\<open>hasGraph\<close>.
\<close>

definition getMembraneProxy :: "world \<Rightarrow> jsval \<Rightarrow> jsval \<Rightarrow> error + jsval option" where
  "getMembraneProxy w graph val =
     (case WeakMap_get w val of
        None \<Rightarrow> Inr None
      | Some DeadEntry \<Rightarrow> Inl (TypeError ''mapping.hasGraph is not a function'')
      | Some (CylinderRef cid) \<Rightarrow>
          (if hasGraph (cylinders w cid) graph
           then (case getProxy (cylinders w cid) graph of
                   Inl e \<Rightarrow> Inl e
                 | Inr p \<Rightarrow> Inr (Some p))
           else Inr None))"

text \<open>\<^verbatim>\<open>hasProxyForValue(graph, value)\<close>, lines 3782-3785.\<close>

definition hasProxyForValue :: "world \<Rightarrow> jsval \<Rightarrow> jsval \<Rightarrow> error + bool" where
  "hasProxyForValue w graph val =
     (case WeakMap_get w val of
        None \<Rightarrow> Inr False
      | Some DeadEntry \<Rightarrow> Inl (TypeError ''mapping.hasGraph is not a function'')
      | Some (CylinderRef cid) \<Rightarrow> Inr (hasGraph (cylinders w cid) graph))"

subsection \<open>Shadow targets\<close>

text \<open>
  \<^verbatim>\<open>makeShadowTarget(value)\<close>, lines 20-32: a new array, object or function, recorded in
  \<^verbatim>\<open>ShadowKeyMap\<close>.  \<^verbatim>\<open>typeof null\<close> is \<^verbatim>\<open>"object"\<close>.
\<close>

definition makeShadowTarget :: "world \<Rightarrow> jsval \<Rightarrow> (error + jsval) \<times> world" where
  "makeShadowTarget w val =
     (if typeof val = TObject \<or> typeof val = TFunction
      then (let rv = (if typeof val = TObject then VObj (nextRef w) else VFun (nextRef w))
            in (Inr rv, w\<lparr>ShadowKeyMap := (ShadowKeyMap w)(rv \<mapsto> val),
                         nextRef := nextRef w + 1\<rparr>))
      else (Inl (Error ''Unknown value for makeShadowTarget''), w))"

text \<open>\<^verbatim>\<open>getRealTarget(target)\<close>, lines 38-40.\<close>

definition getRealTarget :: "world \<Rightarrow> jsval \<Rightarrow> jsval" where
  "getRealTarget w target =
     (case ShadowKeyMap w target of Some v \<Rightarrow> v | None \<Rightarrow> target)"

text \<open>\<^verbatim>\<open>Proxy.revocable(target, handler)\<close>: a new proxy, of the type of its target.\<close>

definition Proxy_revocable :: "world \<Rightarrow> jsval \<Rightarrow> jsval \<Rightarrow> jsval \<times> world" where
  "Proxy_revocable w target handler =
     ((if typeof target = TFunction then VFun (nextRef w) else VObj (nextRef w)),
      w\<lparr>proxies := (proxies w)
            (nextRef w \<mapsto> \<lparr>p_target = target, p_handler = handler, p_revoked = False\<rparr>),
        nextRef := nextRef w + 1\<rparr>)"

subsection \<open>Membrane: building a mapping and wrapping a value\<close>

text \<open>
  A ProxyCylinder has no property \<^verbatim>\<open>originField\<close>: its constructor defines
  \<^verbatim>\<open>originGraph\<close>, \<^verbatim>\<open>proxyDataByGraph\<close>, \<^verbatim>\<open>originalValueSet\<close>, \<^verbatim>\<open>localFlags\<close> and
  \<^verbatim>\<open>localFlagsSymbols\<close> and then prevents extensions, and the frozen prototype holds
  methods only.  Every read of \<^verbatim>\<open>mapping.originField\<close> therefore yields \<^verbatim>\<open>undefined\<close>.
\<close>

definition originField :: "cylinder \<Rightarrow> jsval" where
  "originField c = VUndefined"

text \<open>
  The options that \<^verbatim>\<open>convertArgumentToProxy\<close> and \<^verbatim>\<open>buildMapping\<close> read; \<open>None\<close> is an
  absent property.
\<close>

record convert_options =
  opt_override :: "jsval option"
  opt_mapping :: "mapentry option"
  opt_originHandler :: "jsval option"

definition no_options :: convert_options where
  "no_options = \<lparr> opt_override = None, opt_mapping = None, opt_originHandler = None \<rparr>"

text \<open>
  \<^verbatim>\<open>buildMapping(handler, value, options)\<close>, lines 3852-3926, up to the call
  \<^verbatim>\<open>mapping.set(this, handler[graphKey], parts)\<close> of line 3897.  A ProxyCylinder has no
  method \<^verbatim>\<open>set\<close> (the method that stores metadata is \<^verbatim>\<open>setMetadata\<close>), so that call throws
  and nothing after it runs.  Before it, the function allocates the shadow target and, for
  a handler that is not the origin, the proxy; a cylinder made by line 3865 is not stored
  anywhere.  The copy of the properties of a non-extensible value (lines 3879-3886) writes
  to the new shadow target only.
\<close>

definition buildMapping :: "world \<Rightarrow> jsval \<Rightarrow> jsval \<Rightarrow> convert_options \<Rightarrow> (error + nat) \<times> world" where
  "buildMapping w handler val options =
     (if \<not> ownsHandler w handler
      then (Inl (Error ''handler is not an ObjectGraphHandler we own!''), w)
      else
        (let given = (case opt_mapping options of
                        Some (CylinderRef cid) \<Rightarrow> Some (Some (cylinders w cid))
                      | Some DeadEntry \<Rightarrow> Some None
                      | None \<Rightarrow> None);
             found = (case given of
                        Some m \<Rightarrow> m
                      | None \<Rightarrow>
                          (case WeakMap_get w val of
                             Some (CylinderRef cid) \<Rightarrow> Some (cylinders w cid)
                           | Some DeadEntry \<Rightarrow> None
                           | None \<Rightarrow>
                               (case read_graphName w handler of
                                  Inr g \<Rightarrow> Some (new_ProxyCylinder g)
                                | Inl e \<Rightarrow> None)))
         in case found of
              None \<Rightarrow>
                (Inl (Error ''Assertion failure: buildMapping requires a ProxyCylinder object!''), w)
            | Some mapping \<Rightarrow>
                (let isOriginal = (case read_graphName w handler of
                                     Inr g \<Rightarrow> strict_eq (originField mapping) g
                                   | Inl e \<Rightarrow> False)
                 in if \<not> (isOriginal \<or> ownsHandler w (read_prop (opt_originHandler options)))
                    then (Inl (Error ''Assertion failure: Proxy requests must pass in an origin handler''), w)
                    else if isOriginal \<and> val = VNull
                    then (Inl (TypeError ''Reflect.isExtensible called on non-object''),
                          snd (makeShadowTarget w val))
                    else case makeShadowTarget w val of
                           (Inl e, w1) \<Rightarrow> (Inl e, w1)
                         | (Inr shadowTarget, w1) \<Rightarrow>
                             (let w2 = (if isOriginal then w1
                                        else if instanceof w1 handler ObjectGraph
                                        then snd (Proxy_revocable w1 shadowTarget
                                                   (case handler of
                                                      VObj r \<Rightarrow>
                                                        (case handlers w1 r of
                                                           Some h \<Rightarrow> h_masterProxyHandler h
                                                         | None \<Rightarrow> VUndefined)
                                                    | _ \<Rightarrow> VUndefined))
                                        else snd (Proxy_revocable w1 shadowTarget handler))
                              in (Inl (TypeError ''mapping.set is not a function''), w2)))))"

text \<open>The filter functions: \<^verbatim>\<open>returnFalse\<close> returns false, any other is user code.\<close>

definition apply_filter :: "world \<Rightarrow> jsval \<Rightarrow> jsval \<Rightarrow> bool" where
  "apply_filter w f arg = (if f = returnFalse then False else call_filter w f arg)"

text \<open>
  \<^verbatim>\<open>handler.passThroughFilter\<close> for a handler that \<^verbatim>\<open>ownsHandler\<close> accepted: a graph
  handler, or a chain handler, which inherits the accessor of its base handler.
\<close>

definition handler_filter :: "world \<Rightarrow> jsval \<Rightarrow> jsval" where
  "handler_filter w handler =
     (let handler' = (case ChainHandlers w handler of
                        Some baseHandler \<Rightarrow> baseHandler
                      | None \<Rightarrow> handler)
      in case handler' of
           VObj r \<Rightarrow> (case handlers w r of
                        Some h \<Rightarrow> get_passThroughFilter h
                      | None \<Rightarrow> VUndefined)
         | _ \<Rightarrow> VUndefined)"

text \<open>
  \<^verbatim>\<open>convertArgumentToProxy(originHandler, targetHandler, arg, options)\<close>, lines 4030-4096,
  split at the first lookup: \<open>wrap_unknown\<close> is lines 4052-4095, reached when the target
  graph has no entry for the value.
\<close>

definition wrap_unknown ::
  "world \<Rightarrow> jsval \<Rightarrow> jsval \<Rightarrow> jsval \<Rightarrow> convert_options \<Rightarrow> (error + jsval) \<times> world" where
  "wrap_unknown w originHandler targetHandler arg options =
     (if \<not> ownsHandler w originHandler \<or> \<not> ownsHandler w targetHandler
         \<or> (case (read_graphName w originHandler, read_graphName w targetHandler) of
               (Inr go, Inr gt) \<Rightarrow> strict_eq go gt
             | _ \<Rightarrow> True)
      then (Inl (Error ''convertArgumentToProxy requires two different ObjectGraphHandlers in the Membrane instance''), w)
      else if apply_filter w (membrane_passThroughFilter w) arg
              \<or> (apply_filter w (handler_filter w originHandler) arg
                  \<and> apply_filter w (handler_filter w targetHandler) arg)
      then (Inr arg, w)
      else
        (case hasProxyForValue w (case read_graphName w originHandler of Inr g \<Rightarrow> g | Inl e \<Rightarrow> VUndefined) arg of
           Inl e \<Rightarrow> (Inl e, w)
         | Inr inOrigin \<Rightarrow>
             (let first = (if inOrigin then (Inr 0, w)
                           else buildMapping w originHandler arg
                                  (case WeakMap_get w arg of
                                     Some argMap \<Rightarrow> options\<lparr>opt_mapping := Some argMap\<rparr>
                                   | None \<Rightarrow> options))
              in case first of
                   (Inl e, w1) \<Rightarrow> (Inl e, w1)
                 | (Inr _, w1) \<Rightarrow>
                     (case hasProxyForValue w1 (case read_graphName w1 targetHandler of Inr g \<Rightarrow> g | Inl e \<Rightarrow> VUndefined) arg of
                        Inl e \<Rightarrow> (Inl e, w1)
                      | Inr inTarget \<Rightarrow>
                          (let second =
                                 (if inTarget then (Inr 0, w1)
                                  else case WeakMap_get w1 arg of
                                         None \<Rightarrow> (Inl (Error ''Assertion failure: ProxyCylinder not created before invoking target handler?''), w1)
                                       | Some argMap \<Rightarrow>
                                           buildMapping w1 targetHandler arg
                                             (options\<lparr>opt_originHandler := Some originHandler,
                                                      opt_mapping := Some argMap\<rparr>))
                           in case second of
                                (Inl e, w2) \<Rightarrow> (Inl e, w2)
                              | (Inr _, w2) \<Rightarrow>
                                  (case getMembraneProxy w2 (case read_graphName w2 targetHandler of Inr g \<Rightarrow> g | Inl e \<Rightarrow> VUndefined) arg of
                                     Inl e \<Rightarrow> (Inl e, w2)
                                   | Inr None \<Rightarrow> (Inl (Error ''in convertArgumentToProxy(): proxy not found''), w2)
                                   | Inr (Some rv) \<Rightarrow> (Inr rv, w2)))))))"

definition convertArgumentToProxy ::
  "world \<Rightarrow> jsval \<Rightarrow> jsval \<Rightarrow> jsval \<Rightarrow> convert_options \<Rightarrow> (error + jsval) \<times> world" where
  "convertArgumentToProxy w originHandler targetHandler arg options =
     (let destroyed =
            (if opt_override options = Some (VBool True) then
               (case WeakMap_get w arg of
                  None \<Rightarrow> (Inr (), w)
                | Some DeadEntry \<Rightarrow> (Inl (TypeError ''map.selfDestruct is not a function''), w)
                | Some (CylinderRef cid) \<Rightarrow> selfDestruct w cid)
             else (Inr (), w))
      in case destroyed of
           (Inl e, w1) \<Rightarrow> (Inl e, w1)
         | (Inr _, w1) \<Rightarrow>
             (if valueType arg = Primitive then (Inr arg, w1)
              else case read_graphName w1 targetHandler of
                     Inl e \<Rightarrow> (Inl e, w1)
                   | Inr tg \<Rightarrow>
                       (case getMembraneProxy w1 tg arg of
                          Inl e \<Rightarrow> (Inl e, w1)
                        | Inr (Some rv) \<Rightarrow> (Inr rv, w1)
                        | Inr None \<Rightarrow>
                            wrap_unknown w1 originHandler targetHandler arg options)))"

subsection \<open>Membrane: binding two values\<close>

text \<open>The record that the inner function \<^verbatim>\<open>bag\<close> of \<^verbatim>\<open>bindValuesByHandlers\<close> builds.\<close>

record bag =
  bag_handler :: jsval
  bag_value :: jsval
  bag_type :: vtype
  bag_proxyMap :: "mapentry option"

text \<open>\<^verbatim>\<open>bag(h, v)\<close>, lines 4116-4135.\<close>

definition make_bag :: "world \<Rightarrow> jsval \<Rightarrow> jsval \<Rightarrow> error + bag" where
  "make_bag w h v =
     (if \<not> ownsHandler w h
      then Inl (Error ''bindValuesByHandlers requires two ObjectGraphHandlers from different graphs'')
      else if valueType v = Primitive
      then Inr \<lparr> bag_handler = h, bag_value = v, bag_type = valueType v, bag_proxyMap = None \<rparr>
      else
        (let rv = \<lparr> bag_handler = h, bag_value = v, bag_type = valueType v,
                    bag_proxyMap = WeakMap_get w v \<rparr>
         in case read_graphName w h of
              Inl e \<Rightarrow> Inl e
            | Inr graph \<Rightarrow>
                (case WeakMap_get w v of
                   None \<Rightarrow> Inr rv
                 | Some DeadEntry \<Rightarrow> Inl (TypeError ''rv.proxyMap.hasGraph is not a function'')
                 | Some (CylinderRef cid) \<Rightarrow>
                     (if \<not> hasGraph (cylinders w cid) graph
                      then Inl (Error ''Value argument does not belong to proposed ObjectGraphHandler'')
                      else case getProxy (cylinders w cid) graph of
                             Inl e \<Rightarrow> Inl e
                           | Inr p \<Rightarrow>
                               if strict_eq p v then Inr rv
                               else Inl (Error ''Value argument does not belong to proposed ObjectGraphHandler'')))))"

text \<open>\<^verbatim>\<open>checkField(bag)\<close>, lines 4137-4146: the result is the flag \<^verbatim>\<open>maySet\<close>.\<close>

definition checkField :: "world \<Rightarrow> cylinder \<Rightarrow> bag \<Rightarrow> error + bool" where
  "checkField w proxyMap b =
     (case read_graphName w (bag_handler b) of
        Inl e \<Rightarrow> Inl e
      | Inr graph \<Rightarrow>
          (if hasGraph proxyMap graph
           then (case getProxy proxyMap graph of
                   Inl e \<Rightarrow> Inl e
                 | Inr check \<Rightarrow>
                     if \<not> strict_eq check (bag_value b)
                     then Inl (Error ''Value argument does not belong to proposed object graph'')
                     else Inr False)
           else Inr True))"

text \<open>
  \<^verbatim>\<open>applyBag(bag)\<close>, lines 4148-4157.  Its last statement calls \<^verbatim>\<open>proxyMap.set\<close>, which a
  ProxyCylinder does not have; nothing is written before it.
\<close>

definition applyBag :: "world \<Rightarrow> cylinder \<Rightarrow> bag \<Rightarrow> bool \<Rightarrow> error + unit" where
  "applyBag w proxyMap b maySet =
     (if \<not> maySet then Inr ()
      else case read_graphName w (bag_handler b) of
             Inl e \<Rightarrow> Inl e
           | Inr graph \<Rightarrow>
               (if strict_eq (originField proxyMap) graph
                then Inl (TypeError ''proxyMap.set is not a function'')
                else case getOriginal proxyMap of
                       Inl e \<Rightarrow> Inl e
                     | Inr original \<Rightarrow> Inl (TypeError ''proxyMap.set is not a function'')))"

text \<open>One pair of the postconditions of lines 4204-4222.\<close>

definition bound_as :: "world \<Rightarrow> jsval \<Rightarrow> jsval \<Rightarrow> jsval \<Rightarrow> string \<Rightarrow> error + unit" where
  "bound_as w handler key expected message =
     (case read_graphName w handler of
        Inl e \<Rightarrow> Inl e
      | Inr graph \<Rightarrow>
          (case getMembraneProxy w graph key of
             Inl e \<Rightarrow> Inl e
           | Inr None \<Rightarrow> Inl (Error (''Assertion failure: '' @ message))
           | Inr (Some check) \<Rightarrow>
               if strict_eq check expected then Inr ()
               else Inl (Error ''Assertion failure: value not found in graph name?'')))"

definition postconditions :: "world \<Rightarrow> bag \<Rightarrow> bag \<Rightarrow> bag \<Rightarrow> error + unit" where
  "postconditions w b b0 b1 =
     (if bag_type b = Primitive then Inr ()
      else case bound_as w (bag_handler b0) (bag_value b) (bag_value b0) ''mapping not found?'' of
             Inl e \<Rightarrow> Inl e
           | Inr _ \<Rightarrow>
               bound_as w (bag_handler b1) (bag_value b) (bag_value b1) ''mapping not found?'')"

text \<open>
  \<^verbatim>\<open>bindValuesByHandlers(handler0, value0, handler1, value1)\<close>, lines 4106-4223.  The
  function reads the membrane and writes nothing: the one statement that would write is
  the call of \<^verbatim>\<open>proxyMap.set\<close> in \<^verbatim>\<open>applyBag\<close>, which throws, and the cylinder of
  line 4183 is not stored.  \<open>bind_outcome\<close> is the outcome of the call, and the state
  after it is the state before.
\<close>

definition bind_outcome :: "world \<Rightarrow> jsval \<Rightarrow> jsval \<Rightarrow> jsval \<Rightarrow> jsval \<Rightarrow> error + unit" where
  "bind_outcome w handler0 value0 handler1 value1 =
     (case make_bag w handler0 value0 of
        Inl e \<Rightarrow> Inl e
      | Inr first \<Rightarrow>
     (case make_bag w handler1 value1 of
        Inl e \<Rightarrow> Inl e
      | Inr second \<Rightarrow>
     (if bag_type first = Primitive \<and> bag_type second = Primitive
      then Inl (Error ''bindValuesByHandlers requires two non-primitive values'')
      else
        (let propBag0 = (if bag_type first = Primitive then second else first);
             propBag1 = (if bag_type first = Primitive then first else second)
         in if bag_proxyMap propBag0 \<noteq> None \<and> bag_proxyMap propBag1 \<noteq> None
               \<and> bag_proxyMap propBag0 \<noteq> bag_proxyMap propBag1
            then Inl (Error ''Linking two ObjectGraphHandlers in this way is not safe.'')
            else
              (case read_graphName w (bag_handler propBag0) of
                 Inl e \<Rightarrow> Inl e
               | Inr graph0 \<Rightarrow>
              (case (case bag_proxyMap propBag0 of
                       Some m \<Rightarrow> Some m
                     | None \<Rightarrow> bag_proxyMap propBag1) of
                 Some DeadEntry \<Rightarrow> Inl (TypeError ''proxyMap.hasGraph is not a function'')
               | chosen \<Rightarrow>
                   (let proxyMap = (case chosen of
                                      Some (CylinderRef cid) \<Rightarrow> cylinders w cid
                                    | _ \<Rightarrow> new_ProxyCylinder graph0)
                    in case checkField w proxyMap propBag0 of
                         Inl e \<Rightarrow> Inl e
                       | Inr maySet0 \<Rightarrow>
                      (case checkField w proxyMap propBag1 of
                         Inl e \<Rightarrow> Inl e
                       | Inr maySet1 \<Rightarrow>
                      (case read_graphName w (bag_handler propBag1) of
                         Inl e \<Rightarrow> Inl e
                       | Inr graph1 \<Rightarrow>
                      (if strict_eq graph0 graph1
                          \<and> \<not> strict_eq (bag_value propBag0) (bag_value propBag1)
                       then Inl (Error ''bindValuesByHandlers requires two ObjectGraphHandlers from different graphs'')
                       else
                         (let same = strict_eq graph0 graph1
                          in case applyBag w proxyMap propBag0 (maySet0 \<and> \<not> same) of
                               Inl e \<Rightarrow> Inl e
                             | Inr _ \<Rightarrow>
                            (case applyBag w proxyMap propBag1 (maySet1 \<and> \<not> same) of
                               Inl e \<Rightarrow> Inl e
                             | Inr _ \<Rightarrow>
                            (case postconditions w propBag0 propBag0 propBag1 of
                               Inl e \<Rightarrow> Inl e
                             | Inr _ \<Rightarrow>
                                 postconditions w propBag1 propBag0 propBag1)))))))))))))"

definition bindValuesByHandlers ::
  "world \<Rightarrow> jsval \<Rightarrow> jsval \<Rightarrow> jsval \<Rightarrow> jsval \<Rightarrow> (error + unit) \<times> world" where
  "bindValuesByHandlers w handler0 value0 handler1 value1 =
     (bind_outcome w handler0 value0 handler1 value1, w)"

section \<open>ObjectGraphHandler\<close>

text \<open>
  \<^verbatim>\<open>validateTrapAndShadowTarget(trapName, shadowTarget)\<close>, lines 2307-2321; \<open>this\<close> is the
  handler, whose \<^verbatim>\<open>fieldName\<close> is \<open>h_name\<close>.
\<close>

definition validateTrapAndShadowTarget :: "world \<Rightarrow> handler \<Rightarrow> string \<Rightarrow> jsval \<Rightarrow> error + unit" where
  "validateTrapAndShadowTarget w this trapName shadowTarget =
     (let target = getRealTarget w shadowTarget
      in case WeakMap_get w target of
           Some (CylinderRef cid) \<Rightarrow>
             (let targetMap = cylinders w cid;
                  disableTrapFlag = ''disableTrap('' @ trapName @ '')''
              in if \<not> isShadowTarget targetMap shadowTarget
                 then Inl (Error ''ObjectGraphHandler traps must be called with a shadow target!'')
                 else case getLocalFlag targetMap (h_name this) disableTrapFlag of
                        Inl e \<Rightarrow> Inl e
                      | Inr True \<Rightarrow> Inl (Error ''The trap is not executable.'')
                      | Inr False \<Rightarrow>
                          (case getLocalFlag targetMap (originField targetMap) disableTrapFlag of
                             Inl e \<Rightarrow> Inl e
                           | Inr True \<Rightarrow> Inl (Error ''The trap is not executable.'')
                           | Inr False \<Rightarrow> Inr ()))
         | _ \<Rightarrow> Inl (Error ''No ProxyCylinder found for shadow target!''))"

datatype trap =
    OwnKeys | Has | Get | GetOwnPropertyDescriptor | GetPrototypeOf | IsExtensible
  | PreventExtensions | DeleteProperty | DefineProperty | Set | SetPrototypeOf | Apply
  | Construct

fun trap_name :: "trap \<Rightarrow> string" where
  "trap_name OwnKeys = ''ownKeys''"
| "trap_name Has = ''has''"
| "trap_name Get = ''get''"
| "trap_name GetOwnPropertyDescriptor = ''getOwnPropertyDescriptor''"
| "trap_name GetPrototypeOf = ''getPrototypeOf''"
| "trap_name IsExtensible = ''isExtensible''"
| "trap_name PreventExtensions = ''preventExtensions''"
| "trap_name DeleteProperty = ''deleteProperty''"
| "trap_name DefineProperty = ''defineProperty''"
| "trap_name Set = ''set''"
| "trap_name SetPrototypeOf = ''setPrototypeOf''"
| "trap_name Apply = ''apply''"
| "trap_name Construct = ''construct''"

text \<open>
  A trap method of the handler.  Each of the thirteen methods \<^verbatim>\<open>ownKeys\<close> (line 1181),
  \<^verbatim>\<open>has\<close> (1208), \<^verbatim>\<open>get\<close> (1248), \<^verbatim>\<open>getOwnPropertyDescriptor\<close> (1386), \<^verbatim>\<open>getPrototypeOf\<close>
  (1482), \<^verbatim>\<open>isExtensible\<close> (1545), \<^verbatim>\<open>preventExtensions\<close> (1570), \<^verbatim>\<open>deleteProperty\<close>
  (1592), \<^verbatim>\<open>defineProperty\<close> (1689), \<^verbatim>\<open>set\<close> (1809), \<^verbatim>\<open>setPrototypeOf\<close> (2042), \<^verbatim>\<open>apply\<close>
  (2086) and \<^verbatim>\<open>construct\<close> (2199) has as its first statement the call of
  \<^verbatim>\<open>validateTrapAndShadowTarget\<close> with its own name and its first argument; \<open>body\<close> is
  the rest of the method, run in the state it finds.
\<close>

definition ObjectGraphHandler_trap ::
  "world \<Rightarrow> handler \<Rightarrow> trap \<Rightarrow> jsval \<Rightarrow> (world \<Rightarrow> (error + 'a) \<times> world) \<Rightarrow> (error + 'a) \<times> world" where
  "ObjectGraphHandler_trap w this t shadowTarget body =
     (case validateTrapAndShadowTarget w this (trap_name t) shadowTarget of
        Inl e \<Rightarrow> (Inl e, w)
      | Inr _ \<Rightarrow> body w)"

subsection \<open>Truncating the argument list\<close>

text \<open>\<^verbatim>\<open>Number.isInteger\<close>, \<^verbatim>\<open>Math.min\<close> and \<^verbatim>\<open>Array.prototype.slice(0, count)\<close>.\<close>

fun isInteger :: "jsnum \<Rightarrow> bool" where
  "isInteger (Finite q) = (of_int \<lfloor>q\<rfloor> = q)"
| "isInteger n = False"

fun Math_min :: "jsnum \<Rightarrow> jsnum \<Rightarrow> jsnum" where
  "Math_min NaN b = NaN"
| "Math_min a NaN = NaN"
| "Math_min NegInfinity b = NegInfinity"
| "Math_min a NegInfinity = NegInfinity"
| "Math_min PosInfinity b = b"
| "Math_min a PosInfinity = a"
| "Math_min (Finite a) (Finite b) = Finite (min a b)"

fun slice0 :: "'a list \<Rightarrow> jsnum \<Rightarrow> 'a list" where
  "slice0 xs (Finite q) =
     (if 0 \<le> q then take (nat \<lfloor>q\<rfloor>) xs else take (length xs - nat (- \<lceil>q\<rceil>)) xs)"
| "slice0 xs PosInfinity = xs"
| "slice0 xs NegInfinity = []"
| "slice0 xs NaN = []"

text \<open>Lines 2890-2896 and again 2899-2905: the limit that a stored value stands for.\<close>

definition count_of :: "world \<Rightarrow> jsval \<Rightarrow> jsval \<Rightarrow> error + jsnum" where
  "count_of w target stored =
     (case stored of
        VBool b \<Rightarrow> Inr (if b then Finite (of_nat (fun_length w target)) else PosInfinity)
      | VNum n \<Rightarrow>
          (if isInteger n \<and> ge_zero n then Inr n
           else Inl (Error ''Assertion failure: must call slice with a non-negative integer length''))
      | _ \<Rightarrow> Inl (Error ''Assertion failure: must call slice with a non-negative integer length''))"

text \<open>
  \<^verbatim>\<open>truncateArguments(target, argumentsList)\<close>, lines 2885-2909.  The argument list is an
  array by its type.
\<close>

definition truncateArguments :: "world \<Rightarrow> handler \<Rightarrow> jsval \<Rightarrow> jsval list \<Rightarrow> error + jsval list" where
  "truncateArguments w this target argumentsList =
     (case WeakMap_get w target of
        None \<Rightarrow> Inl (TypeError ''cannot read property originField of undefined'')
      | Some DeadEntry \<Rightarrow> Inl (TypeError ''map.getTruncateArgList is not a function'')
      | Some (CylinderRef cid) \<Rightarrow>
          (let map = cylinders w cid
           in case getTruncateArgList map (originField map) of
                Inl e \<Rightarrow> Inl e
              | Inr oc \<Rightarrow>
             (case count_of w target oc of
                Inl e \<Rightarrow> Inl e
              | Inr originCount \<Rightarrow>
             (case getTruncateArgList map (h_name this) of
                Inl e \<Rightarrow> Inl e
              | Inr tc \<Rightarrow>
             (case count_of w target tc of
                Inl e \<Rightarrow> Inl e
              | Inr targetCount \<Rightarrow>
                  Inr (slice0 argumentsList (Math_min originCount targetCount)))))))"

text \<open>
  The \<^verbatim>\<open>apply\<close> trap (lines 2086-2196) and the \<^verbatim>\<open>construct\<close> trap (lines 2199-2298) up to
  the truncation of the arguments.  \<open>call\<close> is the rest of the method: it wraps the
  truncated arguments into the origin graph, notifies the function listeners, calls the
  real function and wraps the result.  No logger is installed.
\<close>

definition call_trap ::
  "trap \<Rightarrow> world \<Rightarrow> handler \<Rightarrow> jsval \<Rightarrow> jsval list
     \<Rightarrow> (world \<Rightarrow> jsval \<Rightarrow> jsval list \<Rightarrow> (error + jsval) \<times> world) \<Rightarrow> (error + jsval) \<times> world" where
  "call_trap t w this shadowTarget argumentsList call =
     ObjectGraphHandler_trap w this t shadowTarget
       (\<lambda>w1. let target = getRealTarget w1 shadowTarget
             in case WeakMap_get w1 target of
                  None \<Rightarrow> (Inl (TypeError ''cannot read property originField of undefined''), w1)
                | Some DeadEntry \<Rightarrow>
                    (case getHandlerByName w1 VUndefined NoOptions of
                       (Inl e, w2) \<Rightarrow> (Inl e, w2)
                     | (Inr argHandler, w2) \<Rightarrow>
                         (Inl (TypeError ''map.getTruncateArgList is not a function''), w2))
                | Some (CylinderRef cid) \<Rightarrow>
                    (case getHandlerByName w1 (originField (cylinders w1 cid)) NoOptions of
                       (Inl e, w2) \<Rightarrow> (Inl e, w2)
                     | (Inr argHandler, w2) \<Rightarrow>
                         (case truncateArguments w2 this target argumentsList of
                            Inl e \<Rightarrow> (Inl e, w2)
                          | Inr truncated \<Rightarrow> call w2 argHandler truncated)))"

definition ObjectGraphHandler_apply ::
  "world \<Rightarrow> handler \<Rightarrow> jsval \<Rightarrow> jsval \<Rightarrow> jsval list
     \<Rightarrow> (world \<Rightarrow> jsval \<Rightarrow> jsval list \<Rightarrow> (error + jsval) \<times> world) \<Rightarrow> (error + jsval) \<times> world" where
  "ObjectGraphHandler_apply w this shadowTarget thisArg argumentsList call =
     call_trap Apply w this shadowTarget argumentsList call"

definition ObjectGraphHandler_construct ::
  "world \<Rightarrow> handler \<Rightarrow> jsval \<Rightarrow> jsval list \<Rightarrow> jsval
     \<Rightarrow> (world \<Rightarrow> jsval \<Rightarrow> jsval list \<Rightarrow> (error + jsval) \<times> world) \<Rightarrow> (error + jsval) \<times> world" where
  "ObjectGraphHandler_construct w this shadowTarget argumentsList ctorTarget call =
     call_trap Construct w this shadowTarget argumentsList call"

subsection \<open>Revoking a graph\<close>





section \<open>ModifyRulesAPI\<close>

text \<open>\<^verbatim>\<open>assertLocalProxy(fieldName, proxy, methodName)\<close>, lines 3384-3389.\<close>

definition assertLocalProxy :: "world \<Rightarrow> jsval \<Rightarrow> jsval \<Rightarrow> string \<Rightarrow> error + unit" where
  "assertLocalProxy w fieldName proxy methodName =
     (case getMembraneProxy w fieldName proxy of
        Inl e \<Rightarrow> Inl e
      | Inr None \<Rightarrow> Inl (Error (methodName @ '' requires a known proxy!''))
      | Inr (Some match) \<Rightarrow>
          if strict_eq proxy match then Inr ()
          else Inl (Error (methodName @ '' requires a known proxy!'')))"

text \<open>\<^verbatim>\<open>truncateArgList(fieldName, proxy, value)\<close>, lines 3493-3511.\<close>

definition truncateArgList :: "world \<Rightarrow> jsval \<Rightarrow> jsval \<Rightarrow> jsval \<Rightarrow> (error + unit) \<times> world" where
  "truncateArgList w fieldName proxy val =
     (case assertLocalProxy w fieldName proxy ''truncateArgList'' of
        Inl e \<Rightarrow> (Inl e, w)
      | Inr _ \<Rightarrow>
          (if typeof proxy \<noteq> TFunction then (Inl (Error ''proxy must be a function!''), w)
           else if (case val of
                      VNum n \<Rightarrow> \<not> isInteger n \<or> \<not> ge_zero n
                    | VBool b \<Rightarrow> False
                    | _ \<Rightarrow> True)
           then (Inl (Error ''value must be a non-negative integer or a boolean!''), w)
           else case WeakMap_get w proxy of
                  Some (CylinderRef cid) \<Rightarrow>
                    (case setTruncateArgList (cylinders w cid) fieldName val of
                       Inl e \<Rightarrow> (Inl e, w)
                     | Inr c \<Rightarrow> (Inr (), w\<lparr>cylinders := (cylinders w)(cid := c)\<rparr>))
                | _ \<Rightarrow> (Inl (TypeError ''metadata.setTruncateArgList is not a function''), w)))"

section \<open>A concrete membrane\<close>

text \<open>
  A membrane built with \<^verbatim>\<open>refactor: "0.10"\<close> in which the graphs \<^verbatim>\<open>"wet"\<close> and \<^verbatim>\<open>"dry"\<close>
  are registered with an \<^verbatim>\<open>ObjectGraph\<close> each, and in which \<^verbatim>\<open>setMetadata\<close> has stored
  an object (reference 10) under its origin graph \<^verbatim>\<open>"wet"\<close> and, under \<^verbatim>\<open>"dry"\<close>, its
  proxy (reference 11) with the revoke function (12) and the shadow target (13).
\<close>

definition empty_membrane :: world where
  "empty_membrane =
     new_Membrane (VStr ''0.10'') VUndefined (\<lambda>f a. False) (\<lambda>v. ''[object Object]'') (\<lambda>f. 2)"

definition wet_handler :: jsval where
  "wet_handler = VObj 2"

definition dry_handler :: jsval where
  "dry_handler = VObj 4"

definition wet_dry_membrane :: world where
  "wet_dry_membrane =
     (let w1 = snd (new_ObjectGraph empty_membrane (VStr ''wet''));
          w2 = snd (new_ObjectGraph w1 (VStr ''dry''))
      in w2\<lparr>handlersByFieldName :=
               (handlersByFieldName w2)(KStr ''wet'' \<mapsto> wet_handler, KStr ''dry'' \<mapsto> dry_handler),
            cylinders := (cylinders w2)(0 := new_ProxyCylinder (VStr ''wet'')),
            nextRef := 20\<rparr>)"

definition wet_metadata :: metadata where
  "wet_metadata =
     \<lparr> md_value = Some (VObj 10), md_proxy = None, md_revoke = None, md_shadowTarget = None,
       md_override = None, md_ownKeysFilter = None, md_truncateArgList = None \<rparr>"

definition dry_metadata :: metadata where
  "dry_metadata =
     \<lparr> md_value = None, md_proxy = Some (VObj 11), md_revoke = Some (VFun 12),
       md_shadowTarget = Some (VObj 13),
       md_override = None, md_ownKeysFilter = None, md_truncateArgList = None \<rparr>"

definition origin_membrane :: world where
  "origin_membrane = snd (setMetadata wet_dry_membrane 0 (VStr ''wet'') wet_metadata)"

definition wrapped_membrane :: world where
  "wrapped_membrane = snd (setMetadata origin_membrane 0 (VStr ''dry'') dry_metadata)"

definition wrapped_cylinder :: cylinder where
  "wrapped_cylinder =
     \<lparr> originGraph = VStr ''wet'',
       proxyDataByGraph = [(VStr ''wet'', Metadata wet_metadata), (VStr ''dry'', Metadata dry_metadata)],
       originalValueSet = True, localFlags = None, localFlagsSymbols = None \<rparr>"

definition example_handler :: handler where
  "example_handler = fresh_handler ObjectGraphHandler (VStr ''wet'') VUndefined"

text \<open>
  A membrane of the other kind (\<^verbatim>\<open>refactor\<close> not \<^verbatim>\<open>"0.10"\<close>), whose graphs \<^verbatim>\<open>"wet"\<close> and
  \<^verbatim>\<open>"dry"\<close> have an \<^verbatim>\<open>ObjectGraphHandler\<close> each (references 1 and 2).  A function
  (reference 30) has the origin graph \<^verbatim>\<open>"wet"\<close>; under \<^verbatim>\<open>"dry"\<close> it has the proxy 31, made
  by \<^verbatim>\<open>Proxy.revocable\<close> on the shadow target 33 with the \<^verbatim>\<open>"dry"\<close> handler, and the revoke
  function 32.  The graph \<^verbatim>\<open>"wet"\<close> lists the cylinder among its revocables, the graph
  \<^verbatim>\<open>"dry"\<close> the revoke function of the proxy.
\<close>

definition legacy_wet :: handler where
  "legacy_wet = (fresh_handler ObjectGraphHandler (VStr ''wet'') VUndefined)
                  \<lparr>h_revokeFunctions := [RevokeCylinder 0]\<rparr>"

definition legacy_dry :: handler where
  "legacy_dry = (fresh_handler ObjectGraphHandler (VStr ''dry'') VUndefined)
                  \<lparr>h_revokeFunctions := [RevokeProxy 31]\<rparr>"

definition function_metadata :: metadata where
  "function_metadata =
     \<lparr> md_value = Some (VFun 30), md_proxy = None, md_revoke = None, md_shadowTarget = None,
       md_override = None, md_ownKeysFilter = None, md_truncateArgList = None \<rparr>"

definition function_proxy_metadata :: metadata where
  "function_proxy_metadata =
     \<lparr> md_value = None, md_proxy = Some (VFun 31), md_revoke = Some (VFun 32),
       md_shadowTarget = Some (VFun 33),
       md_override = None, md_ownKeysFilter = None, md_truncateArgList = None \<rparr>"

definition legacy_cylinder :: cylinder where
  "legacy_cylinder =
     \<lparr> originGraph = VStr ''wet'',
       proxyDataByGraph = [(VStr ''wet'', Metadata function_metadata),
                           (VStr ''dry'', Metadata function_proxy_metadata)],
       originalValueSet = True, localFlags = None, localFlagsSymbols = None \<rparr>"

definition legacy_start :: world where
  "legacy_start =
     (let w = new_Membrane VUndefined VUndefined (\<lambda>f a. False) (\<lambda>v. ''[object Object]'') (\<lambda>f. 2)
      in w\<lparr>handlers := (handlers w)(1 \<mapsto> legacy_wet, 2 \<mapsto> legacy_dry),
           handlersByFieldName :=
             (handlersByFieldName w)(KStr ''wet'' \<mapsto> VObj 1, KStr ''dry'' \<mapsto> VObj 2),
           cylinders := (cylinders w)(0 := new_ProxyCylinder (VStr ''wet'')),
           ShadowKeyMap := (ShadowKeyMap w)(VFun 33 \<mapsto> VFun 30),
           proxies := (proxies w)
             (31 \<mapsto> \<lparr>p_target = VFun 33, p_handler = VObj 2, p_revoked = False\<rparr>),
           nextRef := 40\<rparr>)"

definition legacy_membrane :: world where
  "legacy_membrane =
     snd (setMetadata (snd (setMetadata legacy_start 0 (VStr ''wet'') function_metadata))
            0 (VStr ''dry'') function_proxy_metadata)"

text \<open>
  The same membrane after \<^verbatim>\<open>modifyRules.truncateArgList("dry", proxy, 1)\<close> and after an
  own-keys filter (the function 34) was stored for the graph \<^verbatim>\<open>"dry"\<close>.
\<close>

definition truncated_membrane :: world where
  "truncated_membrane =
     snd (truncateArgList legacy_membrane (VStr ''dry'') (VFun 31) (VNum (Finite 1)))"

definition filtered_membrane :: world where
  "filtered_membrane =
     (case setOwnKeysFilter (cylinders legacy_membrane 0) (VStr ''dry'') (VFun 34) of
        Inr c \<Rightarrow> legacy_membrane\<lparr>cylinders := (cylinders legacy_membrane)(0 := c)\<rparr>
      | Inl e \<Rightarrow> legacy_membrane)"

section \<open>Facts about the cylinder\<close>

lemma getMetadata_storeMetadata:
  "getMetadata c g = Inr md \<Longrightarrow> getMetadata (storeMetadata c g md') g = Inr md'"
  by (auto simp: getMetadata_def storeMetadata_def update_conv' split: if_splits)

lemma storable_count_shape:
  assumes "storable_count x"
  shows "\<exists>n::int. 0 \<le> n \<and> x = VNum (Finite (of_int n))"
proof -
  from assms obtain m where x: "x = VNum m" and m: "ge_zero m" "parseInt_same m"
    by (cases x) (auto simp: storable_count_def)
  from m obtain q where q: "m = Finite q" "0 \<le> q" "of_int \<lfloor>q\<rfloor> = q"
    by (cases m) auto
  from q have "0 \<le> \<lfloor>q\<rfloor>" by simp
  with x q show ?thesis by metis
qed

text \<open>
  C10.  On a live graph \<open>g\<close> of a cylinder, \<^verbatim>\<open>setTruncateArgList(g, b)\<close> with a boolean
  \<open>b\<close> succeeds, leaves no \<^verbatim>\<open>truncateArgList\<close> property on the metadata of \<open>g\<close>, and
  \<^verbatim>\<open>getTruncateArgList(g)\<close> then returns \<^verbatim>\<open>false\<close>; whatever the argument \<open>count\<close>, the
  call succeeds and a limit it leaves stored is a non-negative finite integer, so
  \<^verbatim>\<open>true\<close> is never stored.
\<close>

theorem setTruncateArgList_boolean_not_stored:
  assumes "getMetadata c g = Inr md"
  shows "(\<exists>c' md'. setTruncateArgList c g (VBool b) = Inr c'
            \<and> getMetadata c' g = Inr md' \<and> md_truncateArgList md' = None
            \<and> getTruncateArgList c' g = Inr (VBool False))
       \<and> (\<exists>c' md'. setTruncateArgList c g count = Inr c'
            \<and> getMetadata c' g = Inr md'
            \<and> (md_truncateArgList md' = None
               \<or> (\<exists>n::int. 0 \<le> n \<and> md_truncateArgList md' = Some (VNum (Finite (of_int n)))))
            \<and> md_truncateArgList md' \<noteq> Some (VBool True))"
proof
  have nb: "\<not> storable_count (VBool b)" by (simp add: storable_count_def)
  show "\<exists>c' md'. setTruncateArgList c g (VBool b) = Inr c'
           \<and> getMetadata c' g = Inr md' \<and> md_truncateArgList md' = None
           \<and> getTruncateArgList c' g = Inr (VBool False)"
    using assms nb getMetadata_storeMetadata [OF assms]
    by (simp add: setTruncateArgList_def getTruncateArgList_def read_prop_def)
  show "\<exists>c' md'. setTruncateArgList c g count = Inr c'
           \<and> getMetadata c' g = Inr md'
           \<and> (md_truncateArgList md' = None
              \<or> (\<exists>n::int. 0 \<le> n \<and> md_truncateArgList md' = Some (VNum (Finite (of_int n)))))
           \<and> md_truncateArgList md' \<noteq> Some (VBool True)"
  proof (cases "storable_count count")
    case True
    from storable_count_shape [OF True] obtain n :: int
      where n: "0 \<le> n" "count = VNum (Finite (of_int n))" by blast
    with True assms getMetadata_storeMetadata [OF assms] show ?thesis
      by (simp add: setTruncateArgList_def)
  next
    case False
    with assms getMetadata_storeMetadata [OF assms] show ?thesis
      by (simp add: setTruncateArgList_def)
  qed
qed

lemma wrapped_cylinder_live_dry:
  "getMetadata wrapped_cylinder (VStr ''dry'') = Inr dry_metadata"
  by (simp add: getMetadata_def wrapped_cylinder_def)

theorem setTruncateArgList_boolean_not_stored_witness:
  "getMetadata wrapped_cylinder (VStr ''dry'') = Inr dry_metadata
   \<and> (\<exists>c'. setTruncateArgList wrapped_cylinder (VStr ''dry'') (VBool True) = Inr c'
          \<and> getTruncateArgList c' (VStr ''dry'') = Inr (VBool False))"
  using setTruncateArgList_boolean_not_stored
          [OF wrapped_cylinder_live_dry, where b = True and count = "VBool True"]
        wrapped_cylinder_live_dry
  by blast

section \<open>Facts about setMetadata\<close>

lemma WeakMap_set_cylinders: "cylinders (snd (WeakMap_set w k v)) = cylinders w"
  by (simp add: WeakMap_set_def Let_def)

lemma setMetadataInternal_lookup:
  "setMetadataInternal c g gd = Inr c1 \<Longrightarrow> map_of (proxyDataByGraph c1) g = Some gd"
  by (auto simp: setMetadataInternal_def update_conv' split: if_splits)

lemma setMetadata_stores:
  assumes "setMetadata w cid g md = (Inr (), w')"
  shows "map_of (proxyDataByGraph (cylinders w' cid)) g = Some (Metadata md)"
    and "typeof g = TString \<or> typeof g = TSymbol"
    and "check_metadata (cylinders w cid) (\<not> strict_eq g (originGraph (cylinders w cid))) md = None"
    and "originGraph (cylinders w' cid) = originGraph (cylinders w cid)"
proof -
  let ?c = "cylinders w cid"
  from assms have ty: "typeof g = TString \<or> typeof g = TSymbol"
    by (auto simp: setMetadata_def Let_def split: if_splits)
  from assms have chk: "check_metadata ?c (\<not> strict_eq g (originGraph ?c)) md = None"
    by (auto simp: setMetadata_def Let_def split: if_splits option.splits)
  from assms obtain c1 where c1: "setMetadataInternal ?c g (Metadata md) = Inr c1"
    by (auto simp: setMetadata_def Let_def split: if_splits option.splits sum.splits)
  have og: "originGraph c1 = originGraph ?c"
    using c1 by (auto simp: setMetadataInternal_def split: if_splits)
  have cyl: "cylinders w' cid = c1 \<or> cylinders w' cid = c1\<lparr>originalValueSet := True\<rparr>"
  proof (cases "strict_eq g (originGraph ?c)")
    case True
    let ?w2 = "w\<lparr>cylinders := (cylinders w)(cid := c1\<lparr>originalValueSet := True\<rparr>)\<rparr>"
    from assms c1 chk True
    have "w' = ?w2 \<or> w' = snd (WeakMap_set ?w2 (read_prop (md_value md)) (CylinderRef cid))"
      by (auto simp: setMetadata_def Let_def split: if_splits)
    then show ?thesis by (auto simp: WeakMap_set_cylinders)
  next
    case False
    let ?w1 = "w\<lparr>cylinders := (cylinders w)(cid := c1)\<rparr>"
    from assms c1 chk False
    have "w' = ?w1 \<or> w' = snd (WeakMap_set ?w1 (read_prop (md_proxy md)) (CylinderRef cid))"
      by (auto simp: setMetadata_def Let_def split: if_splits)
    then show ?thesis by (auto simp: WeakMap_set_cylinders)
  qed
  from cyl setMetadataInternal_lookup [OF c1]
  show "map_of (proxyDataByGraph (cylinders w' cid)) g = Some (Metadata md)" by auto
  from ty show "typeof g = TString \<or> typeof g = TSymbol" .
  from chk show "check_metadata ?c (\<not> strict_eq g (originGraph ?c)) md = None" .
  from cyl og show "originGraph (cylinders w' cid) = originGraph ?c" by auto
qed

lemma wet_dry_membrane_cylinder:
  "cylinders wet_dry_membrane 0 = new_ProxyCylinder (VStr ''wet'')"
  by (simp add: wet_dry_membrane_def empty_membrane_def new_Membrane_def new_ObjectGraph_def
        Let_def)

lemma wet_dry_membrane_map: "membrane_map wet_dry_membrane = (\<lambda>k. None)"
  by (simp add: wet_dry_membrane_def empty_membrane_def new_Membrane_def new_ObjectGraph_def
        Let_def)

lemma origin_membrane_eq:
  "setMetadata wet_dry_membrane 0 (VStr ''wet'') wet_metadata = (Inr (), origin_membrane)"
  "cylinders origin_membrane 0 =
     \<lparr> originGraph = VStr ''wet'',
       proxyDataByGraph = [(VStr ''wet'', Metadata wet_metadata)],
       originalValueSet = True, localFlags = None, localFlagsSymbols = None \<rparr>"
  "membrane_map origin_membrane = (\<lambda>k. None)(VObj 10 \<mapsto> CylinderRef 0)"
  by (simp_all add: origin_membrane_def setMetadata_def Let_def wet_dry_membrane_cylinder
        wet_dry_membrane_map new_ProxyCylinder_def strict_eq_def hasGraph_def
        getGraphNames_def check_metadata_def wet_metadata_def read_prop_def
        setMetadataInternal_def valueType_def WeakMap_set_def WeakMap_has_def WeakMap_get_def)

lemma wrapped_membrane_eq:
  "setMetadata origin_membrane 0 (VStr ''dry'') dry_metadata = (Inr (), wrapped_membrane)"
  "cylinders wrapped_membrane 0 = wrapped_cylinder"
  "membrane_map wrapped_membrane =
     (\<lambda>k. None)(VObj 10 \<mapsto> CylinderRef 0, VObj 11 \<mapsto> CylinderRef 0)"
  by (simp_all add: wrapped_membrane_def setMetadata_def Let_def origin_membrane_eq
        strict_eq_def hasGraph_def getGraphNames_def check_metadata_def dry_metadata_def
        wet_metadata_def wrapped_cylinder_def read_prop_def setMetadataInternal_def
        valueType_def WeakMap_set_def WeakMap_has_def WeakMap_get_def)

text \<open>
  C8, the claim as stated fails: in the cylinder that \<^verbatim>\<open>setMetadata\<close> filled for the
  origin graph \<^verbatim>\<open>"wet"\<close> and the foreign graph \<^verbatim>\<open>"dry"\<close>, \<^verbatim>\<open>getShadowTarget("wet")\<close> on
  the origin graph does not fail: it returns \<^verbatim>\<open>undefined\<close>.
\<close>

theorem getShadowTarget_origin_returns_undefined:
  "originGraph (cylinders wrapped_membrane 0) = VStr ''wet''
   \<and> getShadowTarget (cylinders wrapped_membrane 0) (VStr ''wet'') = Inr VUndefined"
  by (simp add: wrapped_membrane_eq wrapped_cylinder_def getShadowTarget_def getMetadata_def
        wet_metadata_def read_prop_def)

text \<open>
  C8, amended.  After a successful \<^verbatim>\<open>setMetadata\<close> for graph \<open>g\<close>, \<^verbatim>\<open>getShadowTarget(g)\<close>
  returns the \<^verbatim>\<open>shadowTarget\<close> property of the stored metadata: for a foreign graph the
  shadow target (a truthy value), for the origin graph a falsy value (\<^verbatim>\<open>undefined\<close> when
  the property is absent) and not a failure.  On any cylinder the call fails exactly
  when its argument is not a string or a symbol, is unknown to the cylinder, or is dead.
\<close>

theorem getShadowTarget_of_live_graph:
  "(setMetadata w cid g md = (Inr (), w') \<longrightarrow>
      getShadowTarget (cylinders w' cid) g = Inr (read_prop (md_shadowTarget md))
      \<and> (truthy (read_prop (md_shadowTarget md))
           \<longleftrightarrow> \<not> strict_eq g (originGraph (cylinders w' cid))))
   \<and> (isl (getShadowTarget c g') \<longleftrightarrow>
        (typeof g' \<noteq> TString \<and> typeof g' \<noteq> TSymbol)
        \<or> map_of (proxyDataByGraph c) g' = None
        \<or> map_of (proxyDataByGraph c) g' = Some DeadProxyKey)"
proof (intro conjI impI)
  assume a: "setMetadata w cid g md = (Inr (), w')"
  note s = setMetadata_stores [OF a]
  from s(1,2) show "getShadowTarget (cylinders w' cid) g = Inr (read_prop (md_shadowTarget md))"
    by (auto simp: getShadowTarget_def getMetadata_def)
  from s(3) s(4)
  show "truthy (read_prop (md_shadowTarget md))
          \<longleftrightarrow> \<not> strict_eq g (originGraph (cylinders w' cid))"
    by (auto simp: check_metadata_def split: if_splits)
next
  show "isl (getShadowTarget c g') \<longleftrightarrow>
        (typeof g' \<noteq> TString \<and> typeof g' \<noteq> TSymbol)
        \<or> map_of (proxyDataByGraph c) g' = None
        \<or> map_of (proxyDataByGraph c) g' = Some DeadProxyKey"
    by (auto simp: getShadowTarget_def getMetadata_def
             split: option.splits graphdata.splits sum.splits)
qed

theorem getShadowTarget_of_live_graph_witness:
  "setMetadata origin_membrane 0 (VStr ''dry'') dry_metadata = (Inr (), wrapped_membrane)
   \<and> getShadowTarget (cylinders wrapped_membrane 0) (VStr ''dry'') = Inr (VObj 13)
   \<and> \<not> isl (getShadowTarget (cylinders wrapped_membrane 0) (VStr ''wet''))"
  using getShadowTarget_of_live_graph
          [of origin_membrane 0 "VStr ''dry''" dry_metadata wrapped_membrane
              "cylinders wrapped_membrane 0" "VStr ''wet''"]
        wrapped_membrane_eq(1)
  by (simp add: wrapped_membrane_eq(2) wrapped_cylinder_def dry_metadata_def read_prop_def)

section \<open>The pass-through filter of a graph handler\<close>

text \<open>
  C9, the claim as stated fails: on a new handler the assignment of \<^verbatim>\<open>returnFalse\<close>, the
  function the getter hands out, succeeds and changes nothing; \<^verbatim>\<open>mayReplacePassThrough\<close>
  is still true after this successful assignment, and a second assignment succeeds and
  replaces the filter.
\<close>

theorem passThroughFilter_assigned_twice:
  "get_passThroughFilter example_handler = returnFalse
   \<and> set_passThroughFilter example_handler returnFalse = Inr example_handler
   \<and> mayReplacePassThrough example_handler
   \<and> set_passThroughFilter example_handler (VFun 7)
       = Inr (example_handler\<lparr>h_passThroughFilter := VFun 7\<rparr>)"
  by (simp add: example_handler_def fresh_handler_def set_passThroughFilter_def
        get_passThroughFilter_def mayReplacePassThrough_def strict_eq_def returnFalse_def)

text \<open>
  C9, amended.  A function other than the initial \<^verbatim>\<open>returnFalse\<close> can be assigned
  successfully at most once: assigning a value that is not a function throws; after a
  successful assignment of such a function every assignment throws (the setter changes
  nothing when it throws, so that filter stays); \<^verbatim>\<open>mayReplacePassThrough\<close> is true exactly
  while the filter is \<^verbatim>\<open>returnFalse\<close>, and while it is true the assignment of any function
  succeeds and stores it.
\<close>

theorem passThroughFilter_set_once:
  "(typeof val \<noteq> TFunction \<longrightarrow> isl (set_passThroughFilter h val))
   \<and> (set_passThroughFilter h val = Inr h' \<and> val \<noteq> returnFalse \<longrightarrow>
        get_passThroughFilter h' = val \<and> \<not> mayReplacePassThrough h'
        \<and> (\<forall>val'. isl (set_passThroughFilter h' val')))
   \<and> (mayReplacePassThrough h \<longleftrightarrow> get_passThroughFilter h = returnFalse)
   \<and> (mayReplacePassThrough h \<and> typeof val = TFunction \<longrightarrow>
        set_passThroughFilter h val = Inr (h\<lparr>h_passThroughFilter := val\<rparr>))"
  by (auto simp: set_passThroughFilter_def get_passThroughFilter_def
        mayReplacePassThrough_def strict_eq_def returnFalse_def split: if_splits)

theorem passThroughFilter_set_once_witness:
  "set_passThroughFilter example_handler (VFun 7)
     = Inr (example_handler\<lparr>h_passThroughFilter := VFun 7\<rparr>)
   \<and> VFun 7 \<noteq> returnFalse
   \<and> isl (set_passThroughFilter (example_handler\<lparr>h_passThroughFilter := VFun 7\<rparr>) (VFun 8))
   \<and> isl (set_passThroughFilter example_handler (VNum (Finite 3)))"
proof -
  have a: "set_passThroughFilter example_handler (VFun 7)
             = Inr (example_handler\<lparr>h_passThroughFilter := VFun 7\<rparr>)"
    by (simp add: example_handler_def fresh_handler_def set_passThroughFilter_def
          strict_eq_def returnFalse_def)
  have b: "VFun 7 \<noteq> returnFalse" by (simp add: returnFalse_def)
  have c: "typeof (VNum (Finite 3)) \<noteq> TFunction" by simp
  from passThroughFilter_set_once
         [of "VNum (Finite 3)" example_handler "example_handler\<lparr>h_passThroughFilter := VFun 7\<rparr>"]
       c
  have d: "isl (set_passThroughFilter example_handler (VNum (Finite 3)))" by blast
  from passThroughFilter_set_once
         [of "VFun 7" example_handler "example_handler\<lparr>h_passThroughFilter := VFun 7\<rparr>"]
       a b
  have "\<forall>val'. isl (set_passThroughFilter (example_handler\<lparr>h_passThroughFilter := VFun 7\<rparr>) val')"
    by blast
  with a b d show ?thesis by blast
qed

section \<open>The registry of graph handlers\<close>






section \<open>Wrapping values\<close>



lemma wet_dry_membrane_handlers:
  "handlers wet_dry_membrane 2 = Some (fresh_handler ObjectGraph (VStr ''wet'') (VObj 1))"
  "handlers wet_dry_membrane 4 = Some (fresh_handler ObjectGraph (VStr ''dry'') (VObj 3))"
  "handlersByFieldName wet_dry_membrane (KStr ''wet'') = Some (VObj 2)"
  "handlersByFieldName wet_dry_membrane (KStr ''dry'') = Some (VObj 4)"
  "ChainHandlers wet_dry_membrane = (\<lambda>h. None)"
  "membrane_passThroughFilter wet_dry_membrane = returnFalse"
  by (simp_all add: wet_dry_membrane_def empty_membrane_def new_Membrane_def
        new_ObjectGraph_def Let_def wet_handler_def dry_handler_def eval_nat_numeral)

lemma setMetadata_keeps_registry:
  "handlers (snd (setMetadata w cid g md)) = handlers w"
  "handlersByFieldName (snd (setMetadata w cid g md)) = handlersByFieldName w"
  "ChainHandlers (snd (setMetadata w cid g md)) = ChainHandlers w"
  "membrane_passThroughFilter (snd (setMetadata w cid g md)) = membrane_passThroughFilter w"
  "host_toString (snd (setMetadata w cid g md)) = host_toString w"
  "ShadowKeyMap (snd (setMetadata w cid g md)) = ShadowKeyMap w"
  "proxies (snd (setMetadata w cid g md)) = proxies w"
  by (simp_all add: setMetadata_def WeakMap_set_def Let_def split: option.splits sum.splits)

lemma wet_dry_graph_names:
  "read_graphName wet_dry_membrane wet_handler = Inr (VStr ''wet'')"
  "read_graphName wet_dry_membrane dry_handler = Inr (VStr ''dry'')"
  "read_graphName wrapped_membrane wet_handler = Inr (VStr ''wet'')"
  "read_graphName wrapped_membrane dry_handler = Inr (VStr ''dry'')"
  by (simp_all add: read_graphName_def wrapped_membrane_def origin_membrane_def
        setMetadata_keeps_registry wet_dry_membrane_handlers wet_handler_def dry_handler_def
        fresh_handler_def)

lemmas wet_dry_graph_names_unfolded =
  wet_dry_graph_names [unfolded wet_handler_def dry_handler_def]

lemma wet_dry_owned:
  "ownsHandler wet_dry_membrane wet_handler"
  "ownsHandler wet_dry_membrane dry_handler"
  "\<not> ownsHandler wet_dry_membrane VUndefined"
  by (simp_all add: ownsHandler_def instanceof_def owned_under_graphName_def
        wet_dry_graph_names_unfolded wet_dry_membrane_handlers toPropertyKey_def read_prop_def
        strict_eq_def wet_handler_def dry_handler_def fresh_handler_def)

text \<open>
  C1, the claim as stated fails.  In the membrane where the object 10 has the origin graph
  \<^verbatim>\<open>"wet"\<close> and the proxy 11 in \<^verbatim>\<open>"dry"\<close>, \<^verbatim>\<open>convertArgumentToProxy(dry, wet, v)\<close> returns
  \<open>v\<close> itself, so \<^verbatim>\<open>convertArgumentToProxy(wet, dry, convertArgumentToProxy(dry, wet, v))\<close>
  is \<^verbatim>\<open>convertArgumentToProxy(wet, dry, v)\<close>: the proxy 11, not \<open>v\<close>.
\<close>

theorem convertArgumentToProxy_round_trip_gives_proxy:
  "convertArgumentToProxy wrapped_membrane dry_handler wet_handler (VObj 10) no_options
     = (Inr (VObj 10), wrapped_membrane)
   \<and> convertArgumentToProxy wrapped_membrane wet_handler dry_handler (VObj 10) no_options
       = (Inr (VObj 11), wrapped_membrane)"
  by (simp add: convertArgumentToProxy_def no_options_def valueType_def wet_dry_graph_names
        getMembraneProxy_def WeakMap_get_def wrapped_membrane_eq wrapped_cylinder_def
        hasGraph_def getGraphNames_def getProxy_def getMetadata_def strict_eq_def
        wet_metadata_def dry_metadata_def read_prop_def)

text \<open>
  The first wrap of a value does not succeed in this source: \<^verbatim>\<open>buildMapping\<close> throws on
  every input, at the latest at its call of the missing method \<^verbatim>\<open>mapping.set\<close>.
\<close>

lemma buildMapping_throws: "isl (fst (buildMapping w handler v options))"
  by (simp add: buildMapping_def Let_def
           split: option.splits sum.splits mapentry.splits prod.splits)

lemma convertArgumentToProxy_first_wrap_throws:
  "convertArgumentToProxy wet_dry_membrane wet_handler dry_handler (VObj 40) no_options
     = (Inl (Error ''Assertion failure: Proxy requests must pass in an origin handler''),
        wet_dry_membrane)"
  by (simp add: convertArgumentToProxy_def wrap_unknown_def no_options_def valueType_def
        wet_dry_graph_names_unfolded getMembraneProxy_def hasProxyForValue_def WeakMap_get_def
        wet_dry_membrane_map wet_dry_owned [unfolded wet_handler_def dry_handler_def]
        strict_eq_def apply_filter_def wet_dry_membrane_handlers handler_filter_def
        wet_handler_def dry_handler_def
        fresh_handler_def get_passThroughFilter_def buildMapping_def new_ProxyCylinder_def
        originField_def read_prop_def Let_def)

text \<open>
  In general: a value that has no entry in the target graph is never wrapped.  Whatever
  the state, \<^verbatim>\<open>convertArgumentToProxy\<close> then returns the argument itself (a primitive, or
  a value the pass-through filters accept) or throws.
\<close>

lemma hasProxyForValue_of_getMembraneProxy:
  "getMembraneProxy w g v = Inr None \<Longrightarrow> hasProxyForValue w g v = Inr False"
  by (auto simp: getMembraneProxy_def hasProxyForValue_def
           split: option.splits mapentry.splits if_splits sum.splits)

lemma buildMapping_not_Inr: "buildMapping w h v opts \<noteq> (Inr x, w')"
proof
  assume "buildMapping w h v opts = (Inr x, w')"
  then have "\<not> isl (fst (buildMapping w h v opts))" by simp
  with buildMapping_throws show False by blast
qed

lemma buildMapping_cases:
  obtains e w' where "buildMapping w h v opts = (Inl e, w')"
proof (cases "buildMapping w h v opts")
  case (Pair r w')
  show ?thesis
  proof (cases r)
    case (Inl e)
    with Pair that show ?thesis by blast
  next
    case (Inr x)
    with Pair buildMapping_not_Inr show ?thesis by blast
  qed
qed

lemma wrap_unknown_never_wraps:
  assumes "read_graphName w targetHandler = Inr tg"
    and "getMembraneProxy w tg arg = Inr None"
    and "fst (wrap_unknown w originHandler targetHandler arg options) = Inr rv"
  shows "rv = arg"
proof -
  let ?go = "case read_graphName w originHandler of Inr g \<Rightarrow> g | Inl e \<Rightarrow> VUndefined"
  have t: "hasProxyForValue w tg arg = Inr False"
    using assms(2) by (rule hasProxyForValue_of_getMembraneProxy)
  show ?thesis
  proof (cases "hasProxyForValue w ?go arg")
    case (Inl e)
    with assms(3) show ?thesis
      by (simp add: wrap_unknown_def split: if_splits)
  next
    case (Inr inOrigin)
    show ?thesis
    proof (cases inOrigin)
      case True
      show ?thesis
      proof (cases "WeakMap_get w arg")
        case None
        with True Inr assms(1,3) t show ?thesis
          by (simp add: wrap_unknown_def split: if_splits)
      next
        case (Some argMap)
        obtain e w' where "buildMapping w targetHandler arg
            (options\<lparr>opt_originHandler := Some originHandler, opt_mapping := Some argMap\<rparr>)
              = (Inl e, w')"
          by (rule buildMapping_cases)
        with Some True Inr assms(1,3) t show ?thesis
          by (simp add: wrap_unknown_def split: if_splits)
      qed
    next
      case False
      obtain e w' where "buildMapping w originHandler arg
            (case WeakMap_get w arg of
               Some argMap \<Rightarrow> options\<lparr>opt_mapping := Some argMap\<rparr>
             | None \<Rightarrow> options) = (Inl e, w')"
        by (rule buildMapping_cases)
      with False Inr assms(3) show ?thesis
        by (simp add: wrap_unknown_def split: if_splits)
    qed
  qed
qed

lemma convertArgumentToProxy_never_wraps:
  assumes "opt_override options \<noteq> Some (VBool True)"
    and "read_graphName w targetHandler = Inr tg"
    and "getMembraneProxy w tg arg = Inr None"
    and "fst (convertArgumentToProxy w originHandler targetHandler arg options) = Inr rv"
  shows "rv = arg"
proof (cases "valueType arg = Primitive")
  case True
  with assms(1,4) show ?thesis by (simp add: convertArgumentToProxy_def)
next
  case False
  with assms(1,2,3,4)
  have "fst (wrap_unknown w originHandler targetHandler arg options) = Inr rv"
    by (simp add: convertArgumentToProxy_def)
  with assms(2,3) show ?thesis by (rule wrap_unknown_never_wraps)
qed

text \<open>
  C1, amended.  Let the cylinder of \<open>v\<close> hold \<open>v\<close> under its origin graph \<open>A\<close> and the
  proxy \<open>p\<close> under the live graph \<open>B\<close>, with both \<open>v\<close> and \<open>p\<close> keys of the
  membrane's map, and let \<open>hA\<close> and \<open>hB\<close> be handlers whose \<^verbatim>\<open>graphName\<close> is \<open>A\<close> and
  \<open>B\<close>.  Then, without the option \<^verbatim>\<open>override\<close>, \<^verbatim>\<open>convertArgumentToProxy(hA, hB, v)\<close>
  returns \<open>p\<close> and changes nothing, so every repetition returns the same reference;
  \<^verbatim>\<open>convertArgumentToProxy(hB, hA, p)\<close> returns \<open>v\<close>, so wrapping into \<open>B\<close> and back
  gives \<open>v\<close>; and \<^verbatim>\<open>convertArgumentToProxy(hB, hA, v)\<close> returns \<open>v\<close>, so the composition
  the claim names returns \<open>p\<close>.
\<close>

theorem convertArgumentToProxy_identity:
  assumes "read_graphName w hA = Inr A" and "read_graphName w hB = Inr B"
    and "WeakMap_get w v = Some (CylinderRef cid)"
    and "WeakMap_get w p = Some (CylinderRef cid)"
    and "originGraph (cylinders w cid) = A"
    and "getMetadata (cylinders w cid) A = Inr mdA" and "md_value mdA = Some v"
    and "getMetadata (cylinders w cid) B = Inr mdB" and "md_proxy mdB = Some p"
    and "A \<noteq> B"
    and "opt_override options \<noteq> Some (VBool True)"
  shows "convertArgumentToProxy w hA hB v options = (Inr p, w)
       \<and> convertArgumentToProxy w hB hA p options = (Inr v, w)
       \<and> convertArgumentToProxy w hB hA v options = (Inr v, w)"
proof -
  let ?c = "cylinders w cid"
  from assms(6) have tyA: "typeof A = TString \<or> typeof A = TSymbol"
    by (auto simp: getMetadata_def split: if_splits)
  then have seA: "strict_eq A A" by (auto simp: strict_eq_def)
  from assms(10) have seB: "\<not> strict_eq B A" by (simp add: strict_eq_def)
  have hasA: "hasGraph ?c A"
    using assms(6)
    by (auto simp: getMetadata_def hasGraph_def getGraphNames_def
             split: if_splits option.splits dest!: map_of_SomeD intro: rev_image_eqI)
  have hasB: "hasGraph ?c B"
    using assms(8)
    by (auto simp: getMetadata_def hasGraph_def getGraphNames_def
             split: if_splits option.splits dest!: map_of_SomeD intro: rev_image_eqI)
  have pA: "getProxy ?c A = Inr v"
    using assms(5,6,7) seA by (simp add: getProxy_def read_prop_def)
  have pB: "getProxy ?c B = Inr p"
    using assms(5,8,9) seB by (simp add: getProxy_def read_prop_def)
  have nv: "valueType v \<noteq> Primitive" using assms(3) by (auto simp: WeakMap_get_def split: if_splits)
  have np: "valueType p \<noteq> Primitive" using assms(4) by (auto simp: WeakMap_get_def split: if_splits)
  have 1: "convertArgumentToProxy w hA hB v options = (Inr p, w)"
    using assms(2,3,11) nv hasB pB by (simp add: convertArgumentToProxy_def getMembraneProxy_def)
  have 2: "convertArgumentToProxy w hB hA p options = (Inr v, w)"
    using assms(1,4,11) np hasA pA by (simp add: convertArgumentToProxy_def getMembraneProxy_def)
  have 3: "convertArgumentToProxy w hB hA v options = (Inr v, w)"
    using assms(1,3,11) nv hasA pA by (simp add: convertArgumentToProxy_def getMembraneProxy_def)
  from 1 2 3 show ?thesis by blast
qed

theorem convertArgumentToProxy_identity_witness:
  "convertArgumentToProxy wrapped_membrane wet_handler dry_handler (VObj 10) no_options
     = (Inr (VObj 11), wrapped_membrane)
   \<and> convertArgumentToProxy wrapped_membrane dry_handler wet_handler (VObj 11) no_options
       = (Inr (VObj 10), wrapped_membrane)
   \<and> convertArgumentToProxy wrapped_membrane dry_handler wet_handler (VObj 10) no_options
       = (Inr (VObj 10), wrapped_membrane)"
proof -
  have 3: "WeakMap_get wrapped_membrane (VObj 10) = Some (CylinderRef 0)"
    and 4: "WeakMap_get wrapped_membrane (VObj 11) = Some (CylinderRef 0)"
    by (simp_all add: WeakMap_get_def valueType_def wrapped_membrane_eq)
  have 5: "originGraph (cylinders wrapped_membrane 0) = VStr ''wet''"
    by (simp add: wrapped_membrane_eq wrapped_cylinder_def)
  have 6: "getMetadata (cylinders wrapped_membrane 0) (VStr ''wet'') = Inr wet_metadata"
    and 8: "getMetadata (cylinders wrapped_membrane 0) (VStr ''dry'') = Inr dry_metadata"
    by (simp_all add: wrapped_membrane_eq wrapped_cylinder_def getMetadata_def)
  have 7: "md_value wet_metadata = Some (VObj 10)" by (simp add: wet_metadata_def)
  have 9: "md_proxy dry_metadata = Some (VObj 11)" by (simp add: dry_metadata_def)
  have 10: "VStr ''wet'' \<noteq> VStr ''dry''" by simp
  have 11: "opt_override no_options \<noteq> Some (VBool True)" by (simp add: no_options_def)
  show ?thesis
    by (rule convertArgumentToProxy_identity
               [OF wet_dry_graph_names(3) wet_dry_graph_names(4) 3 4 5 6 7 8 9 10 11])
qed

section \<open>Binding two values\<close>

lemma bindValuesByHandlers_changes_nothing:
  "snd (bindValuesByHandlers w handler0 value0 handler1 value1) = w"
  by (simp add: bindValuesByHandlers_def)

text \<open>
  The failures that \<^verbatim>\<open>bindValuesByHandlers\<close> announces do happen, and as the function
  never writes they leave the membrane as it was: two primitives; one graph for both
  sides with two different values; a first value whose cylinder already holds another
  partner in the graph of the second.
\<close>

lemma make_bag_fields:
  "make_bag w h v = Inr b \<Longrightarrow>
     bag_handler b = h \<and> bag_value b = v \<and> bag_type b = valueType v
     \<and> bag_proxyMap b = (if valueType v = Primitive then None else WeakMap_get w v)"
  by (auto simp: make_bag_def Let_def split: if_splits sum.splits option.splits mapentry.splits)

lemma bind_outcome_both_primitive:
  assumes "valueType value0 = Primitive" and "valueType value1 = Primitive"
  shows "isl (bind_outcome w handler0 value0 handler1 value1)"
proof (cases "make_bag w handler0 value0")
  case (Inl e)
  then show ?thesis by (simp add: bind_outcome_def)
next
  case first: (Inr b0)
  show ?thesis
  proof (cases "make_bag w handler1 value1")
    case (Inl e)
    with first show ?thesis by (simp add: bind_outcome_def)
  next
    case (Inr b1)
    with first assms make_bag_fields [OF first] make_bag_fields [OF Inr] show ?thesis
      by (simp add: bind_outcome_def)
  qed
qed

lemma bind_outcome_same_graph:
  assumes "read_graphName w handler0 = Inr g" and "read_graphName w handler1 = Inr g"
    and "typeof g = TString \<or> typeof g = TSymbol"
    and "\<not> strict_eq value0 value1" and "\<not> strict_eq value1 value0"
  shows "isl (bind_outcome w handler0 value0 handler1 value1)"
proof (cases "make_bag w handler0 value0")
  case (Inl e)
  then show ?thesis by (simp add: bind_outcome_def)
next
  case first: (Inr b0)
  show ?thesis
  proof (cases "make_bag w handler1 value1")
    case (Inl e)
    with first show ?thesis by (simp add: bind_outcome_def)
  next
    case (Inr b1)
    have se: "strict_eq g g" using assms(3) by (auto simp: strict_eq_def)
    note f0 = make_bag_fields [OF first] and f1 = make_bag_fields [OF Inr]
    show ?thesis
      using first Inr f0 f1 assms(1,2,4,5) se
      by (simp add: bind_outcome_def Let_def
               split: if_splits sum.splits option.splits mapentry.splits)
  qed
qed

lemma bind_outcome_other_partner:
  assumes "read_graphName w handler1 = Inr g1"
    and "WeakMap_get w value0 = Some (CylinderRef cid)"
    and "hasGraph (cylinders w cid) g1"
    and "getProxy (cylinders w cid) g1 = Inr x" and "\<not> strict_eq x value1"
  shows "isl (bind_outcome w handler0 value0 handler1 value1)"
proof (cases "make_bag w handler0 value0")
  case (Inl e)
  then show ?thesis by (simp add: bind_outcome_def)
next
  case first: (Inr b0)
  show ?thesis
  proof (cases "make_bag w handler1 value1")
    case (Inl e)
    with first show ?thesis by (simp add: bind_outcome_def)
  next
    case (Inr b1)
    have np: "valueType value0 \<noteq> Primitive"
      using assms(2) by (auto simp: WeakMap_get_def split: if_splits)
    note f0 = make_bag_fields [OF first] and f1 = make_bag_fields [OF Inr]
    from f0 np assms(2) have pm0: "bag_proxyMap b0 = Some (CylinderRef cid)"
      and t0: "bag_type b0 \<noteq> Primitive" and h0: "bag_handler b0 = handler0"
      by simp_all
    have c1: "checkField w (cylinders w cid) b1
                = Inl (Error ''Value argument does not belong to proposed object graph'')"
      using f1 assms(1,3,4,5) by (simp add: checkField_def)
    show ?thesis
    proof (cases "bag_proxyMap b1 \<noteq> None \<and> bag_proxyMap b0 \<noteq> bag_proxyMap b1")
      case True
      with first Inr t0 pm0 show ?thesis by (simp add: bind_outcome_def)
    next
      case False
      show ?thesis
      proof (cases "read_graphName w handler0")
        case (Inl e)
        with False first Inr t0 pm0 h0 show ?thesis by (simp add: bind_outcome_def)
      next
        case g0: (Inr graph0)
        show ?thesis
        proof (cases "checkField w (cylinders w cid) b0")
          case (Inl e)
          with False first Inr t0 pm0 h0 g0 show ?thesis by (simp add: bind_outcome_def)
        next
          case m0: (Inr maySet0)
          with False first Inr t0 pm0 h0 g0 c1 show ?thesis by (simp add: bind_outcome_def)
        qed
      qed
    qed
  qed
qed

lemma bindValuesByHandlers_fails_atomically:
  assumes "(valueType value0 = Primitive \<and> valueType value1 = Primitive)
         \<or> (\<exists>g. read_graphName w handler0 = Inr g \<and> read_graphName w handler1 = Inr g
                \<and> (typeof g = TString \<or> typeof g = TSymbol)
                \<and> \<not> strict_eq value0 value1 \<and> \<not> strict_eq value1 value0)
         \<or> (\<exists>g1 cid x. read_graphName w handler1 = Inr g1
                \<and> WeakMap_get w value0 = Some (CylinderRef cid)
                \<and> hasGraph (cylinders w cid) g1
                \<and> getProxy (cylinders w cid) g1 = Inr x \<and> \<not> strict_eq x value1)"
  shows "isl (fst (bindValuesByHandlers w handler0 value0 handler1 value1))
       \<and> snd (bindValuesByHandlers w handler0 value0 handler1 value1) = w"
  using assms bind_outcome_both_primitive bind_outcome_same_graph bind_outcome_other_partner
  by (auto simp: bindValuesByHandlers_def)

text \<open>
  C6, at the failing input: two objects (40 and 41) that the membrane does not know, for
  the graphs \<^verbatim>\<open>"wet"\<close> and \<^verbatim>\<open>"dry"\<close>.  \<^verbatim>\<open>bindValuesByHandlers\<close> throws in \<^verbatim>\<open>applyBag\<close>, where
  \<^verbatim>\<open>proxyMap.originField\<close> is \<^verbatim>\<open>undefined\<close> and \<^verbatim>\<open>getOriginal()\<close> is asked of the new
  cylinder; the membrane is unchanged and the two values are not bound:
  \<^verbatim>\<open>convertArgumentToProxy\<close> of the first does not return the second.
\<close>

theorem bindValuesByHandlers_unknown_values_throws:
  "bindValuesByHandlers wet_dry_membrane wet_handler (VObj 40) dry_handler (VObj 41)
     = (Inl (Error ''the original value hasn't been set''), wet_dry_membrane)
   \<and> fst (convertArgumentToProxy wet_dry_membrane wet_handler dry_handler (VObj 40) no_options)
       \<noteq> Inr (VObj 41)"
  by (simp add: convertArgumentToProxy_first_wrap_throws)
     (simp add: bindValuesByHandlers_def bind_outcome_def make_bag_def wet_dry_owned valueType_def
        WeakMap_get_def wet_dry_membrane_map wet_dry_graph_names checkField_def
        new_ProxyCylinder_def hasGraph_def getGraphNames_def strict_eq_def applyBag_def
        originField_def getOriginal_def Let_def)

section \<open>Traps and revocation\<close>

lemma getMetadata_originField: "isl (getMetadata c (originField c))"
  by (simp add: getMetadata_def originField_def)







lemma legacy_membrane_fields:
  "handlers legacy_membrane 2 = Some legacy_dry"
  "proxies legacy_membrane 31 = Some \<lparr>p_target = VFun 33, p_handler = VObj 2, p_revoked = False\<rparr>"
  "ShadowKeyMap legacy_membrane (VFun 33) = Some (VFun 30)"
  by (simp_all add: legacy_membrane_def setMetadata_keeps_registry legacy_start_def
        new_Membrane_def Let_def)


section \<open>The traps at work\<close>

lemma legacy_start_fields:
  "cylinders legacy_start 0 = new_ProxyCylinder (VStr ''wet'')"
  "membrane_map legacy_start = (\<lambda>k. None)"
  by (simp_all add: legacy_start_def new_Membrane_def Let_def)

lemma legacy_membrane_cylinder:
  "cylinders legacy_membrane 0 = legacy_cylinder"
  "membrane_map legacy_membrane
     = (\<lambda>k. None)(VFun 30 \<mapsto> CylinderRef 0, VFun 31 \<mapsto> CylinderRef 0)"
  by (simp_all add: legacy_membrane_def legacy_cylinder_def setMetadata_def Let_def
        legacy_start_fields new_ProxyCylinder_def strict_eq_def hasGraph_def
        getGraphNames_def check_metadata_def function_metadata_def
        function_proxy_metadata_def read_prop_def setMetadataInternal_def valueType_def
        WeakMap_set_def WeakMap_has_def WeakMap_get_def)

lemma truncated_membrane_eq:
  "truncated_membrane =
     legacy_membrane\<lparr>cylinders := (cylinders legacy_membrane)
       (0 := storeMetadata legacy_cylinder (VStr ''dry'')
               (function_proxy_metadata\<lparr>md_truncateArgList := Some (VNum (Finite 1))\<rparr>))\<rparr>"
  by (simp add: truncated_membrane_def truncateArgList_def assertLocalProxy_def
        getMembraneProxy_def WeakMap_get_def valueType_def legacy_membrane_cylinder
        legacy_cylinder_def hasGraph_def getGraphNames_def getProxy_def getMetadata_def
        strict_eq_def function_proxy_metadata_def read_prop_def setTruncateArgList_def
        storable_count_def)

lemma filtered_membrane_eq:
  "filtered_membrane =
     legacy_membrane\<lparr>cylinders := (cylinders legacy_membrane)
       (0 := storeMetadata legacy_cylinder (VStr ''dry'')
               (function_proxy_metadata\<lparr>md_ownKeysFilter := Some (VFun 34)\<rparr>))\<rparr>"
  by (simp add: filtered_membrane_def setOwnKeysFilter_def legacy_membrane_cylinder
        legacy_cylinder_def getMetadata_def)

lemma validate_on_legacy_proxy:
  assumes "membrane_map w = membrane_map legacy_membrane"
    and "ShadowKeyMap w = ShadowKeyMap legacy_membrane"
    and "cylinders w 0 = storeMetadata legacy_cylinder (VStr ''dry'') md"
    and "md_shadowTarget md = Some (VFun 33)"
  shows "validateTrapAndShadowTarget w legacy_dry trapName (VFun 33)
           = Inl (Error ''graphName is neither a symbol nor a string!'')"
  using assms
  by (simp add: validateTrapAndShadowTarget_def getRealTarget_def legacy_membrane_fields
        WeakMap_get_def valueType_def legacy_membrane_cylinder Let_def isShadowTarget_def
        storeMetadata_def legacy_cylinder_def function_metadata_def read_prop_def
        strict_eq_def originField_def getLocalFlag_def getMetadata_def
        legacy_dry_def fresh_handler_def)

lemma truncateArguments_throws:
  "isl (truncateArguments w this target argumentsList)"
  by (simp add: truncateArguments_def getTruncateArgList_def getMetadata_def originField_def
           split: option.splits mapentry.splits)

text \<open>
  C5, at the failing input: the function 30 of graph \<^verbatim>\<open>"wet"\<close>, truncated to one argument
  for the graph \<^verbatim>\<open>"dry"\<close> (the stored limit is 1), and its proxy called with the
  arguments 2 and 40.  The \<^verbatim>\<open>apply\<close> trap throws before anything is called, for any
  rest \<open>call\<close> of the method; and \<^verbatim>\<open>truncateArguments\<close> itself throws on these
  arguments, at \<^verbatim>\<open>map.getTruncateArgList(map.originField)\<close>.
\<close>

theorem apply_truncated_to_one_throws:
  "getTruncateArgList (cylinders truncated_membrane 0) (VStr ''dry'') = Inr (VNum (Finite 1))
   \<and> ObjectGraphHandler_apply truncated_membrane legacy_dry (VFun 33) VUndefined
         [VNum (Finite 2), VNum (Finite 40)] call
       = (Inl (Error ''graphName is neither a symbol nor a string!''), truncated_membrane)
   \<and> truncateArguments truncated_membrane legacy_dry (VFun 30)
         [VNum (Finite 2), VNum (Finite 40)]
       = Inl (Error ''graphName is neither a symbol nor a string!'')"
proof (intro conjI)
  show "getTruncateArgList (cylinders truncated_membrane 0) (VStr ''dry'')
          = Inr (VNum (Finite 1))"
    by (simp add: truncated_membrane_eq getTruncateArgList_def getMetadata_def
          storeMetadata_def legacy_cylinder_def read_prop_def)
  have "validateTrapAndShadowTarget truncated_membrane legacy_dry (trap_name Apply) (VFun 33)
          = Inl (Error ''graphName is neither a symbol nor a string!'')"
    by (rule validate_on_legacy_proxy
               [where md = "function_proxy_metadata\<lparr>md_truncateArgList := Some (VNum (Finite 1))\<rparr>"])
       (simp_all add: truncated_membrane_eq function_proxy_metadata_def)
  then show "ObjectGraphHandler_apply truncated_membrane legacy_dry (VFun 33) VUndefined
               [VNum (Finite 2), VNum (Finite 40)] call
             = (Inl (Error ''graphName is neither a symbol nor a string!''), truncated_membrane)"
    by (simp add: ObjectGraphHandler_apply_def call_trap_def ObjectGraphHandler_trap_def)
  show "truncateArguments truncated_membrane legacy_dry (VFun 30)
          [VNum (Finite 2), VNum (Finite 40)]
        = Inl (Error ''graphName is neither a symbol nor a string!'')"
    by (simp add: truncateArguments_def truncated_membrane_eq legacy_membrane_cylinder
          WeakMap_get_def valueType_def getTruncateArgList_def getMetadata_def
          originField_def)
qed

text \<open>
  C4, at the failing input: the proxy 31 of graph \<^verbatim>\<open>"dry"\<close> with an own-keys filter stored
  for that graph.  Every trap method of the handler, among them \<^verbatim>\<open>has\<close>,
  \<^verbatim>\<open>getOwnPropertyDescriptor\<close>, \<^verbatim>\<open>ownKeys\<close>, \<^verbatim>\<open>defineProperty\<close> and \<^verbatim>\<open>deleteProperty\<close>,
  throws in its validation, whatever the rest \<open>body\<close> of the method is: the filter is
  not consulted and no trap returns.
\<close>

theorem traps_with_filter_throw:
  "getOwnKeysFilter (cylinders filtered_membrane 0) (VStr ''dry'') = Inr (VFun 34)
   \<and> ObjectGraphHandler_trap filtered_membrane legacy_dry t (VFun 33) body
       = (Inl (Error ''graphName is neither a symbol nor a string!''), filtered_membrane)"
proof (intro conjI)
  show "getOwnKeysFilter (cylinders filtered_membrane 0) (VStr ''dry'') = Inr (VFun 34)"
    by (simp add: filtered_membrane_eq getOwnKeysFilter_def getMetadata_def
          storeMetadata_def legacy_cylinder_def read_prop_def)
  have "validateTrapAndShadowTarget filtered_membrane legacy_dry (trap_name t) (VFun 33)
          = Inl (Error ''graphName is neither a symbol nor a string!'')"
    by (rule validate_on_legacy_proxy
               [where md = "function_proxy_metadata\<lparr>md_ownKeysFilter := Some (VFun 34)\<rparr>"])
       (simp_all add: filtered_membrane_eq function_proxy_metadata_def)
  then show "ObjectGraphHandler_trap filtered_membrane legacy_dry t (VFun 33) body
               = (Inl (Error ''graphName is neither a symbol nor a string!''), filtered_membrane)"
    by (simp add: ObjectGraphHandler_trap_def)
qed

end
